theory Spec2Isabelle
  imports Complex_Main
begin

section \<open>FlareProx local relay: endpoint selection\<close>

text \<open>
  The local proxy server of \<^verbatim>\<open>flareprox.py\<close> picks one worker endpoint per request
  (\<^verbatim>\<open>_choose_endpoint\<close>), forwards ordinary requests to it (\<^verbatim>\<open>_forward\<close>),
  dials CONNECT targets directly (\<^verbatim>\<open>do_CONNECT\<close>) and is started and stopped through a
  pid file (\<^verbatim>\<open>serve-stop\<close> in \<^verbatim>\<open>main\<close>). Each function below follows the Python
  text line by line. Exceptions are values of type \<open>exn\<close>; mutable dictionaries are passed
  in and returned.
\<close>

datatype exn = IndexError | ValueError | ZeroDivisionError | FileNotFoundError

text \<open>Python truthiness of an optional string: \<^verbatim>\<open>not x\<close> holds for \<^verbatim>\<open>None\<close> and \<^verbatim>\<open>""\<close>.\<close>

definition falsy :: "string option \<Rightarrow> bool" where
  "falsy x = (case x of None \<Rightarrow> True | Some s \<Rightarrow> s = [])"

text \<open>\<^verbatim>\<open>a % b\<close> on Python integers raises on a zero divisor.\<close>

definition py_mod :: "int \<Rightarrow> int \<Rightarrow> exn + int" where
  "py_mod a b = (if b = 0 then Inl ZeroDivisionError else Inr (a mod b))"

text \<open>\<^verbatim>\<open>xs[i]\<close>: a negative index counts from the end, anything else out of range raises.\<close>

definition py_index :: "'a list \<Rightarrow> int \<Rightarrow> exn + 'a" where
  "py_index xs i =
     (if 0 \<le> i \<and> i < int (length xs) then Inr (xs ! nat i)
      else if - int (length xs) \<le> i \<and> i < 0 then Inr (xs ! nat (int (length xs) + i))
      else Inl IndexError)"

text \<open>
  \<^verbatim>\<open>random.choice(seq)\<close> raises IndexError on an empty sequence and otherwise returns one
  of its elements; the draw \<open>r\<close> of the generator is an input of the model.
\<close>

definition random_choice :: "nat \<Rightarrow> 'a list \<Rightarrow> exn + 'a" where
  "random_choice r xs = (if xs = [] then Inl IndexError else Inr (xs ! (r mod length xs)))"

text \<open>
  An endpoint is a dictionary (\<^verbatim>\<open>List[Dict]\<close>) of which only the key \<^verbatim>\<open>"url"\<close> is read;
  the selection state is the dictionary \<^verbatim>\<open>context["state"]\<close>, created empty by
  \<^verbatim>\<open>run_local_proxy\<close>, whose key \<^verbatim>\<open>"idx"\<close> holds the cursor.
\<close>

type_synonym endpoint = "string \<rightharpoonup> string"
type_synonym sel_state = "string \<rightharpoonup> int"

definition state_get :: "sel_state \<Rightarrow> string \<Rightarrow> int \<Rightarrow> int" where
  "state_get st k d = (case st k of None \<Rightarrow> d | Some v \<Rightarrow> v)"

text \<open>
  \<^verbatim>\<open>_choose_endpoint(endpoints, policy, state)\<close>. The result pairs what the call returns
  (or raises) with the state dictionary afterwards.
\<close>

definition choose_endpoint ::
  "endpoint list \<Rightarrow> string \<Rightarrow> sel_state \<Rightarrow> nat \<Rightarrow> (exn + string option) \<times> sel_state" where
  "choose_endpoint endpoints policy state r =
     (if endpoints = [] then (Inr None, state)
      else if policy = ''roundrobin'' then
        (let idx = state_get state ''idx'' 0 in
         case py_mod idx (int (length endpoints)) of
           Inl e \<Rightarrow> (Inl e, state)
         | Inr j \<Rightarrow>
            (case py_index endpoints j of
               Inl e \<Rightarrow> (Inl e, state)
             | Inr ep \<Rightarrow>
                (case py_mod (idx + 1) (int (length endpoints)) of
                   Inl e \<Rightarrow> (Inl e, state)
                 | Inr c \<Rightarrow> (Inr (ep ''url''), state(''idx'' \<mapsto> c)))))
      else
        (case random_choice r endpoints of
           Inl e \<Rightarrow> (Inl e, state)
         | Inr ep \<Rightarrow> (Inr (ep ''url''), state)))"

text \<open>
  Calls made one after the other on the same state dictionary: one result per call,
  the list \<open>rs\<close> holding the random draw available to each call.
\<close>

fun choose_seq ::
  "endpoint list \<Rightarrow> string \<Rightarrow> sel_state \<Rightarrow> nat list \<Rightarrow> (exn + string option) list" where
  "choose_seq endpoints policy state [] = []"
| "choose_seq endpoints policy state (r # rs) =
     (case choose_endpoint endpoints policy state r of
        (res, state') \<Rightarrow> res # choose_seq endpoints policy state' rs)"

section \<open>Strings, headers and the standard library\<close>

text \<open>
  A string is a list of characters with code points below 256: the server reads request
  lines and headers as ISO-8859-1. On such strings \<^verbatim>\<open>str.lower()\<close> shifts the ASCII
  capitals and the Latin-1 capitals (all of 0xC0..0xDE but the multiplication sign).
\<close>

definition lower_char :: "char \<Rightarrow> char" where
  "lower_char c =
     (let n = (of_char c :: nat)
      in if (65 \<le> n \<and> n \<le> 90) \<or> (192 \<le> n \<and> n \<le> 222 \<and> n \<noteq> 215)
         then char_of (n + 32) else c)"

definition lower :: "string \<Rightarrow> string" where
  "lower s = map lower_char s"

definition startswith :: "string \<Rightarrow> string \<Rightarrow> bool" where
  "startswith s p = (take (length p) s = p)"

text \<open>\<^verbatim>\<open>str(n)\<close> for a length \<open>n\<close>: its decimal digits.\<close>

definition digit_char :: "nat \<Rightarrow> char" where
  "digit_char d = char_of (48 + d)"

fun str_nat :: "nat \<Rightarrow> string" where
  "str_nat n = (if n < 10 then [digit_char n] else str_nat (n div 10) @ [digit_char (n mod 10)])"

declare str_nat.simps [simp del]

text \<open>
  \<^verbatim>\<open>self.headers\<close> and \<^verbatim>\<open>resp.headers\<close> are read through \<^verbatim>\<open>items()\<close>, the list of
  (name, value) pairs in order, and through \<^verbatim>\<open>get(name)\<close>, which returns the value of the
  first pair whose name matches without regard to case.
\<close>

type_synonym header_items = "(string \<times> string) list"

definition headers_get :: "header_items \<Rightarrow> string \<Rightarrow> string option" where
  "headers_get items name = map_option snd (find (\<lambda>kv. lower (fst kv) = lower name) items)"

text \<open>
  \<^verbatim>\<open>d[k] = v\<close> on a Python dictionary kept as the list of its items in insertion order:
  a key already present keeps its place and takes the new value, a new key goes last.
\<close>

fun dict_set :: "('k \<times> 'v) list \<Rightarrow> 'k \<Rightarrow> 'v \<Rightarrow> ('k \<times> 'v) list" where
  "dict_set [] k v = [(k, v)]"
| "dict_set ((k', v') # d) k v = (if k' = k then (k, v) # d else (k', v') # dict_set d k v)"

text \<open>
  The functions of the Python standard library that the handlers call are parameters of
  the model: \<^verbatim>\<open>urlparse\<close> (which raises ValueError on some targets, such as one with
  an unbalanced bracket in its host, and of whose result the attributes scheme, netloc,
  path and query are read), \<^verbatim>\<open>parse_qs\<close>, \<^verbatim>\<open>quote(_, safe='')\<close>, \<^verbatim>\<open>int\<close> on a string (\<open>None\<close> when it
  raises ValueError), \<^verbatim>\<open>str.strip\<close>, and \<^verbatim>\<open>json.dumps(_).encode()\<close> on a dictionary of
  strings given as its items.
\<close>

record parse_result =
  scheme :: string
  netloc :: string
  ppath :: string
  query :: string

record stdlib =
  urlparse :: "string \<Rightarrow> exn + parse_result"
  parse_qs :: "string \<Rightarrow> (string \<rightharpoonup> string list)"
  quote :: "string \<Rightarrow> string"
  py_int :: "string \<Rightarrow> int option"
  strip :: "string \<Rightarrow> string"
  json_dumps :: "(string \<times> string) list \<Rightarrow> string"

section \<open>The request forwarder\<close>

text \<open>
  What a handler sees of a request: \<^verbatim>\<open>self.command\<close>, \<^verbatim>\<open>self.path\<close> (the request target
  as sent), \<^verbatim>\<open>self.headers.items()\<close> and the bytes that \<^verbatim>\<open>self.rfile\<close> still holds.
\<close>

record request =
  command :: string
  path :: string
  headers :: header_items
  rfile :: string

text \<open>
  The arguments of one \<^verbatim>\<open>requests.request(...)\<close> call, the response object it returns
  (\<^verbatim>\<open>status_code\<close>, \<^verbatim>\<open>headers.items()\<close>, \<^verbatim>\<open>content\<close>), and a response written to the
  client: the code given to \<^verbatim>\<open>send_response\<close>, the handler's own \<^verbatim>\<open>send_header\<close> calls in
  order and the bytes written to \<^verbatim>\<open>wfile\<close>. What the libraries add below these calls
  (the default headers of \<^verbatim>\<open>requests\<close>, the Server and Date headers of
  \<^verbatim>\<open>send_response\<close>) is outside the handler and not listed.
\<close>

record outbound =
  out_method :: string
  out_url :: string
  out_headers :: header_items
  out_data :: "string option"
  out_timeout :: real

record upstream_response =
  status_code :: int
  resp_headers :: header_items
  content :: string

record client_response =
  status :: int
  sent_headers :: header_items
  body :: string

text \<open>
  What handling one request did: the responses sent, the \<^verbatim>\<open>requests.request\<close> calls,
  the \<^verbatim>\<open>socket.create_connection\<close> calls, and the \<^verbatim>\<open>_access_log(status, bytes_sent)\<close>
  calls.
\<close>

record outcome =
  responses :: "client_response list"
  calls :: "outbound list"
  dials :: "(string \<times> int) list"
  access_log :: "(int \<times> nat) list"

text \<open>The dictionary \<^verbatim>\<open>context\<close> without its \<^verbatim>\<open>"state"\<close> entry, which is threaded separately.\<close>

record proxy_context =
  ctx_endpoints :: "endpoint list"
  ctx_policy :: string
  ctx_timeout :: real

text \<open>
  The first part of \<^verbatim>\<open>_forward\<close>: four blocks in sequence, each but the first guarded by
  \<^verbatim>\<open>if not target\<close>. What \<^verbatim>\<open>urlparse(self.path)\<close> raises is not caught, and
  \<^verbatim>\<open>qs.get("url", [None])[0]\<close> raises IndexError on an empty list.
\<close>

definition extract_target :: "stdlib \<Rightarrow> request \<Rightarrow> exn + string option" where
  "extract_target L req =
     (case urlparse L (path req) of
        Inl e \<Rightarrow> Inl e
      | Inr parsed \<Rightarrow>
         (let p = ppath parsed;
              target = (if startswith p ''/http://'' \<or> startswith p ''/https://''
                        then Some (drop 1 p) else None);
              target = (if falsy target \<and> scheme parsed \<in> {''http'', ''https''} \<and>
                           netloc parsed \<noteq> []
                        then Some (path req) else target)
          in case (if falsy target then
                     (let qs = parse_qs L (query parsed)
                      in case (case qs ''url'' of
                                 None \<Rightarrow> Inr None
                               | Some vs \<Rightarrow> map_sum id Some (py_index vs 0)) of
                           Inl e \<Rightarrow> Inl e
                         | Inr u \<Rightarrow> Inr (if \<not> falsy u then u else target))
                   else Inr target) of
               Inl e \<Rightarrow> Inl e
             | Inr target \<Rightarrow>
                 Inr (if falsy target then
                        (let hdr = headers_get (headers req) ''X-Target-URL''
                         in if \<not> falsy hdr then hdr else target)
                      else target)))"

text \<open>
  The three error replies of \<^verbatim>\<open>_forward\<close> have one shape: a JSON body, the status, the
  headers Content-Type and Content-Length, the body, and one access-log call.
\<close>

definition json_reply :: "stdlib \<Rightarrow> int \<Rightarrow> (string \<times> string) list \<Rightarrow> outbound list \<Rightarrow> outcome" where
  "json_reply L code obj cs =
     (let b = json_dumps L obj
      in \<lparr>responses = [\<lparr>status = code,
                        sent_headers = [(''Content-Type'', ''application/json''),
                                        (''Content-Length'', str_nat (length b))],
                        body = b\<rparr>],
          calls = cs, dials = [], access_log = [(code, length b)]\<rparr>)"

definition exclude :: "string set" where
  "exclude = {''host'', ''connection'', ''proxy-connection'', ''keep-alive'',
              ''transfer-encoding'', ''upgrade''}"

text \<open>The loop that fills the dictionary \<^verbatim>\<open>fwd_headers\<close>.\<close>

fun copy_headers :: "header_items \<Rightarrow> header_items \<Rightarrow> header_items" where
  "copy_headers [] fwd_headers = fwd_headers"
| "copy_headers ((k, v) # items) fwd_headers =
     (if lower k \<in> exclude then copy_headers items fwd_headers
      else copy_headers items (dict_set fwd_headers k v))"

text \<open>
  The request body passed on: none for GET and HEAD; otherwise \<^verbatim>\<open>int\<close> of the
  Content-Length header (\<^verbatim>\<open>"0"\<close> when absent or empty) may raise, and a positive length
  reads that many bytes.
\<close>

definition read_data :: "stdlib \<Rightarrow> request \<Rightarrow> exn + string option" where
  "read_data L req =
     (if command req \<notin> {''GET'', ''HEAD''} then
        (let h = (case headers_get (headers req) ''Content-Length'' of None \<Rightarrow> ''0'' | Some v \<Rightarrow> v);
             s = (if h = [] then ''0'' else h)
         in case py_int L s of
              None \<Rightarrow> Inl ValueError
            | Some len \<Rightarrow> if len > 0 then Inr (Some (take (nat len) (rfile req))) else Inr None)
      else Inr None)"

definition excluded_resp :: "string set" where
  "excluded_resp = {''transfer-encoding'', ''content-encoding''}"

text \<open>The loop over \<^verbatim>\<open>resp.headers.items()\<close>: the \<^verbatim>\<open>send_header\<close> calls it makes.\<close>

fun relay_headers :: "header_items \<Rightarrow> header_items" where
  "relay_headers [] = []"
| "relay_headers ((k, v) # items) =
     (if lower k \<in> excluded_resp then relay_headers items
      else if lower k = ''content-length'' then relay_headers items
      else (k, v) # relay_headers items)"

text \<open>The body of the \<^verbatim>\<open>try\<close> block after \<^verbatim>\<open>requests.request\<close> has returned.\<close>

definition relay_response :: "upstream_response \<Rightarrow> outbound \<Rightarrow> outcome" where
  "relay_response resp c =
     \<lparr>responses = [\<lparr>status = status_code resp,
                     sent_headers = relay_headers (resp_headers resp) @
                                    [(''Content-Length'', str_nat (length (content resp)))],
                     body = (if content resp \<noteq> [] then content resp else [])\<rparr>],
      calls = [c], dials = [],
      access_log = [(status_code resp, length (content resp))]\<rparr>"

text \<open>
  What \<^verbatim>\<open>requests.request\<close> can raise: a RequestException \<open>e\<close>, given by \<^verbatim>\<open>str(e)\<close>, which
  \<^verbatim>\<open>_forward\<close> catches, or any other exception (a ValueError for a timeout that is not
  positive, for one), which it does not.
\<close>

datatype request_error = RequestException string | OtherException exn

text \<open>
  \<^verbatim>\<open>_forward\<close>. \<open>request\<close> stands for \<^verbatim>\<open>requests.request\<close>: it returns a response or raises.
  An exception that \<^verbatim>\<open>_forward\<close> does not catch ends the handler without a response.
\<close>

definition forward ::
  "stdlib \<Rightarrow> (outbound \<Rightarrow> request_error + upstream_response) \<Rightarrow> proxy_context \<Rightarrow> request \<Rightarrow> sel_state \<Rightarrow> nat
     \<Rightarrow> (exn + outcome) \<times> sel_state" where
  "forward L request ctx req state r =
     (case extract_target L req of
        Inl e \<Rightarrow> (Inl e, state)
      | Inr target \<Rightarrow>
         (let no_target = (Inr (json_reply L 400 [(''error'', ''No target URL specified'')] []), state)
          in case target of
               None \<Rightarrow> no_target
             | Some t \<Rightarrow>
                if t = [] then no_target
                else
                  (case choose_endpoint (ctx_endpoints ctx) (ctx_policy ctx) state r of
                     (Inl e, state') \<Rightarrow> (Inl e, state')
                   | (Inr worker, state') \<Rightarrow>
                      (let no_worker =
                             (Inr (json_reply L 503 [(''error'', ''No worker endpoints available'')] []),
                              state')
                       in case worker of
                            None \<Rightarrow> no_worker
                          | Some w \<Rightarrow>
                             if w = [] then no_worker
                             else
                               (let upstream_url = w @ ''?url='' @ quote L t;
                                    fwd_headers = copy_headers (headers req) []
                                in case read_data L req of
                                     Inl e \<Rightarrow> (Inl e, state')
                                   | Inr data \<Rightarrow>
                                      (let c = \<lparr>out_method = command req, out_url = upstream_url,
                                                out_headers = fwd_headers, out_data = data,
                                                out_timeout = ctx_timeout ctx\<rparr>
                                       in case request c of
                                            Inr resp \<Rightarrow> (Inr (relay_response resp c), state')
                                          | Inl (RequestException msg) \<Rightarrow>
                                             (Inr (json_reply L 502
                                                     [(''error'', ''Proxy request failed''),
                                                      (''message'', msg)] [c]),
                                              state')
                                          | Inl (OtherException e) \<Rightarrow> (Inl e, state')))))))"

section \<open>The CONNECT tunnel\<close>

text \<open>
  \<^verbatim>\<open>host, port_str = self.path.split(":", 1)\<close>: without a colon the split has one element
  and the unpacking raises.
\<close>

definition split_colon :: "string \<Rightarrow> (string \<times> string) option" where
  "split_colon s =
     (if CHR '':'' \<in> set s
      then Some (takeWhile (\<lambda>c. c \<noteq> CHR '':'') s, drop 1 (dropWhile (\<lambda>c. c \<noteq> CHR '':'') s))
      else None)"

text \<open>
  The relay loop sees the world through \<^verbatim>\<open>select\<close>: each round yields the ready sockets
  with what \<^verbatim>\<open>recv\<close> and the following \<^verbatim>\<open>sendall\<close> do on them. An empty ready list is
  the 30 second timeout; so is the end of the trace, after which nothing more arrives.
\<close>

datatype sock = Client | Upstream

datatype io = Recv string | RecvRaises | SendRaises string

text \<open>The \<^verbatim>\<open>for s in rlist\<close> loop: whether it hit the \<^verbatim>\<open>except\<close> branch, and \<^verbatim>\<open>bytes_out\<close>.\<close>

fun relay_ready :: "(sock \<times> io) list \<Rightarrow> nat \<Rightarrow> bool \<times> nat" where
  "relay_ready [] bytes_out = (False, bytes_out)"
| "relay_ready ((s, Recv d) # rlist) bytes_out =
     (if d = [] then (True, bytes_out)
      else if s = Client then relay_ready rlist bytes_out
      else relay_ready rlist (bytes_out + length d))"
| "relay_ready ((s, RecvRaises) # rlist) bytes_out = (True, bytes_out)"
| "relay_ready ((s, SendRaises d) # rlist) bytes_out = (True, bytes_out)"

text \<open>The \<^verbatim>\<open>while True\<close> loop; both ways out log status 200 with \<^verbatim>\<open>bytes_out\<close>.\<close>

fun relay_loop :: "(sock \<times> io) list list \<Rightarrow> nat \<Rightarrow> nat" where
  "relay_loop [] bytes_out = bytes_out"
| "relay_loop (rlist # rest) bytes_out =
     (if rlist = [] then bytes_out
      else case relay_ready rlist bytes_out of
             (True, b) \<Rightarrow> b
           | (False, b) \<Rightarrow> relay_loop rest b)"

text \<open>
  \<^verbatim>\<open>do_CONNECT\<close>. \<open>dial host port\<close> tells whether \<^verbatim>\<open>socket.create_connection\<close> returns
  (rather than raises); the status-line reply of an established tunnel is listed as a
  response with status 200.
\<close>

definition do_CONNECT ::
  "stdlib \<Rightarrow> (string \<Rightarrow> int \<Rightarrow> bool) \<Rightarrow> (sock \<times> io) list list \<Rightarrow> proxy_context \<Rightarrow> request \<Rightarrow> sel_state
     \<Rightarrow> (exn + outcome) \<times> sel_state" where
  "do_CONNECT L dial events ctx req state =
     (let bad_request = \<lparr>responses = [\<lparr>status = 400, sent_headers = [], body = []\<rparr>],
                         calls = [], dials = [], access_log = [(400, 0)]\<rparr>
      in case split_colon (path req) of
           None \<Rightarrow> (Inr bad_request, state)
         | Some (host, port_str) \<Rightarrow>
            (case py_int L port_str of
               None \<Rightarrow> (Inr bad_request, state)
             | Some port \<Rightarrow>
                if \<not> dial host port then
                  (Inr \<lparr>responses = [\<lparr>status = 502, sent_headers = [], body = []\<rparr>],
                        calls = [], dials = [(host, port)], access_log = [(502, 0)]\<rparr>, state)
                else
                  (Inr \<lparr>responses = [\<lparr>status = 200, sent_headers = [], body = []\<rparr>],
                        calls = [], dials = [(host, port)],
                        access_log = [(200, relay_loop events 0)]\<rparr>, state)))"

section \<open>The process supervisor\<close>

text \<open>
  The working directory holds the marker file \<^verbatim>\<open>flareprox_server.pid\<close> or not; \<open>kills\<close>
  lists the \<^verbatim>\<open>os.kill\<close> calls and \<open>printed\<close> the lines written, each named after its text:
  \<^verbatim>\<open>No PID file found\<close>, \<^verbatim>\<open>Server stopped\<close>, \<^verbatim>\<open>Failed to stop server: ...\<close>.
\<close>

datatype signal = SIGTERM

datatype message = No_PID_file_found | Server_stopped | Failed_to_stop_server string

record world =
  marker :: "string option"
  kills :: "(int \<times> signal) list"
  printed :: "message list"

text \<open>\<^verbatim>\<open>_read_pid\<close>: \<open>None\<close> when the file is absent or its text is no integer.\<close>

definition read_pid :: "stdlib \<Rightarrow> world \<Rightarrow> int option" where
  "read_pid L w =
     (case marker w of
        None \<Rightarrow> None
      | Some s \<Rightarrow> (case py_int L (strip L s) of None \<Rightarrow> None | Some n \<Rightarrow> Some n))"

definition os_remove :: "world \<Rightarrow> exn + world" where
  "os_remove w = (case marker w of None \<Rightarrow> Inl FileNotFoundError | Some _ \<Rightarrow> Inr (w\<lparr>marker := None\<rparr>))"

text \<open>\<^verbatim>\<open>_remove_pid\<close> swallows what \<^verbatim>\<open>os.remove\<close> raises.\<close>

definition remove_pid :: "world \<Rightarrow> world" where
  "remove_pid w =
     (if marker w \<noteq> None then (case os_remove w of Inl e \<Rightarrow> w | Inr w' \<Rightarrow> w') else w)"

text \<open>
  The \<^verbatim>\<open>serve-stop\<close> branch of \<^verbatim>\<open>main\<close>. \<open>kill pid sig\<close> is \<open>None\<close> when \<^verbatim>\<open>os.kill\<close> returns
  and \<open>Some e\<close> when it raises an exception with text \<open>e\<close>. \<^verbatim>\<open>not pid\<close> holds for \<^verbatim>\<open>None\<close>
  and for 0.
\<close>

definition serve_stop :: "stdlib \<Rightarrow> (int \<Rightarrow> signal \<Rightarrow> string option) \<Rightarrow> world \<Rightarrow> world" where
  "serve_stop L kill w =
     (let not_found = w\<lparr>printed := printed w @ [No_PID_file_found]\<rparr>
      in case read_pid L w of
           None \<Rightarrow> not_found
         | Some pid \<Rightarrow>
            if pid = 0 then not_found
            else
              (let w1 = w\<lparr>kills := kills w @ [(pid, SIGTERM)]\<rparr>
               in case kill pid SIGTERM of
                    None \<Rightarrow> (let w2 = remove_pid w1 in w2\<lparr>printed := printed w2 @ [Server_stopped]\<rparr>)
                  | Some e \<Rightarrow> w1\<lparr>printed := printed w1 @ [Failed_to_stop_server e]\<rparr>))"

section \<open>A concrete library for running the handlers\<close>

text \<open>
  To run the model on examples, each library parameter gets a small executable
  instance that computes what CPython's function returns on the inputs named with it.
  The general theorems below hold for every library; only the examples use this one.
\<close>

definition split_at :: "char \<Rightarrow> string \<Rightarrow> string \<times> string" where
  "split_at c s = (takeWhile (\<lambda>x. x \<noteq> c) s, drop 1 (dropWhile (\<lambda>x. x \<noteq> c) s))"

text \<open>
  \<^verbatim>\<open>urlparse\<close> on a request target without \<^verbatim>\<open>#\<close> and \<^verbatim>\<open>;\<close> that is either in origin
  form (a path starting with one slash, then an optional \<^verbatim>\<open>?query\<close>) or an absolute
  \<^verbatim>\<open>http://\<close> or \<^verbatim>\<open>https://\<close> URL. A host with one square bracket and not the other
  raises ValueError (\<^verbatim>\<open>Invalid IPv6 URL\<close>).
\<close>

definition urlparse_simple :: "string \<Rightarrow> exn + parse_result" where
  "urlparse_simple s =
     (let sch = (if startswith s ''http://'' then ''http''
                 else if startswith s ''https://'' then ''https'' else []);
          rest = (if sch = [] then s else drop (length sch + 3) s);
          loc = (if sch = [] then [] else takeWhile (\<lambda>c. c \<noteq> CHR ''/'' \<and> c \<noteq> CHR ''?'') rest);
          rest = (if sch = [] then s else dropWhile (\<lambda>c. c \<noteq> CHR ''/'' \<and> c \<noteq> CHR ''?'') rest)
      in if (CHR 0x5B \<in> set loc \<and> CHR 0x5D \<notin> set loc) \<or>
            (CHR 0x5D \<in> set loc \<and> CHR 0x5B \<notin> set loc)
         then Inl ValueError
         else Inr \<lparr>scheme = sch, netloc = loc, ppath = fst (split_at (CHR ''?'') rest),
                   query = snd (split_at (CHR ''?'') rest)\<rparr>)"

text \<open>\<^verbatim>\<open>s.split(sep)\<close> for a one-character separator.\<close>

fun split_on :: "char \<Rightarrow> string \<Rightarrow> string list" where
  "split_on c [] = [] # []"
| "split_on c (x # xs) =
     (if x = c then [] # split_on c xs
      else (case split_on c xs of [] \<Rightarrow> [x] # [] | w # ws \<Rightarrow> (x # w) # ws))"

text \<open>
  \<^verbatim>\<open>parse_qs\<close> with its default arguments on a query string without \<^verbatim>\<open>%\<close>, \<^verbatim>\<open>+\<close> and
  \<^verbatim>\<open>;\<close> (nothing to unquote): fields are separated by \<^verbatim>\<open>&\<close>, a field without \<^verbatim>\<open>=\<close> or
  with an empty value is dropped, and the values of a name are listed in order.
\<close>

definition parse_qsl_plain :: "string \<Rightarrow> (string \<times> string) list" where
  "parse_qsl_plain qs =
     map (split_at (CHR ''=''))
       (filter (\<lambda>f. CHR ''='' \<in> set f \<and> snd (split_at (CHR ''='') f) \<noteq> []) (split_on (CHR ''&'') qs))"

definition parse_qs_plain :: "string \<Rightarrow> (string \<rightharpoonup> string list)" where
  "parse_qs_plain qs name =
     (case map snd (filter (\<lambda>nv. fst nv = name) (parse_qsl_plain qs)) of
        [] \<Rightarrow> None
      | v # vs \<Rightarrow> Some (v # vs))"

text \<open>
  \<^verbatim>\<open>quote(s, safe='')\<close> on an ASCII string: letters, digits and \<^verbatim>\<open>_.-~\<close> stay, every other
  character becomes \<^verbatim>\<open>%XX\<close> with upper-case hexadecimal digits.
\<close>

definition hex_digit :: "nat \<Rightarrow> char" where
  "hex_digit d = (if d < 10 then char_of (48 + d) else char_of (55 + d))"

definition unreserved :: "char \<Rightarrow> bool" where
  "unreserved c =
     (let n = (of_char c :: nat)
      in (65 \<le> n \<and> n \<le> 90) \<or> (97 \<le> n \<and> n \<le> 122) \<or> (48 \<le> n \<and> n \<le> 57) \<or>
         c = CHR ''_'' \<or> c = CHR ''.'' \<or> c = CHR ''-'' \<or> c = CHR ''~'')"

definition quote_char :: "char \<Rightarrow> string" where
  "quote_char c =
     (if unreserved c then [c]
      else [CHR ''%'', hex_digit ((of_char c :: nat) div 16), hex_digit ((of_char c :: nat) mod 16)])"

definition quote_ascii :: "string \<Rightarrow> string" where
  "quote_ascii s = concat (map quote_char s)"

text \<open>
  \<^verbatim>\<open>int(s)\<close> on a string without white space and underscores: an optional sign and one
  or more decimal digits; anything else raises.
\<close>

definition is_digit :: "char \<Rightarrow> bool" where
  "is_digit c = (48 \<le> (of_char c :: nat) \<and> (of_char c :: nat) \<le> 57)"

definition digits_value :: "string \<Rightarrow> int" where
  "digits_value ds = foldl (\<lambda>a c. 10 * a + (int (of_char c) - 48)) 0 ds"

definition int_decimal :: "string \<Rightarrow> int option" where
  "int_decimal s =
     (let neg = (take 1 s = ''-'');
          ds = (if take 1 s = ''-'' \<or> take 1 s = ''+'' then drop 1 s else s)
      in if ds \<noteq> [] \<and> list_all is_digit ds
         then Some (if neg then - digits_value ds else digits_value ds) else None)"

text \<open>\<^verbatim>\<open>s.strip()\<close> on an ASCII string: blanks, tabs and line ends go from both ends.\<close>

definition is_space :: "char \<Rightarrow> bool" where
  "is_space c = ((9 \<le> (of_char c :: nat) \<and> (of_char c :: nat) \<le> 13) \<or>
                 (28 \<le> (of_char c :: nat) \<and> (of_char c :: nat) \<le> 32))"

definition strip_ascii :: "string \<Rightarrow> string" where
  "strip_ascii s = rev (dropWhile is_space (rev (dropWhile is_space s)))"

text \<open>
  \<^verbatim>\<open>json.dumps(d).encode()\<close> on a dictionary of printable ASCII strings without quotation
  marks and backslashes: \<^verbatim>\<open>{"k": "v", ...}\<close>.
\<close>

definition json_member :: "string \<times> string \<Rightarrow> string" where
  "json_member kv = [CHR 0x22] @ fst kv @ [CHR 0x22] @ '': '' @ [CHR 0x22] @ snd kv @ [CHR 0x22]"

fun join_comma :: "string list \<Rightarrow> string" where
  "join_comma [] = []"
| "join_comma [x] = x"
| "join_comma (x # y # ys) = x @ '', '' @ join_comma (y # ys)"

definition json_plain :: "(string \<times> string) list \<Rightarrow> string" where
  "json_plain obj = ''{'' @ join_comma (map json_member obj) @ ''}''"

definition cpython :: stdlib where
  "cpython = \<lparr>urlparse = urlparse_simple, parse_qs = parse_qs_plain, quote = quote_ascii,
              py_int = int_decimal, strip = strip_ascii, json_dumps = json_plain\<rparr>"

text \<open>An endpoint dictionary with the single entry \<^verbatim>\<open>"url"\<close>.\<close>

definition endpoint_of :: "string \<Rightarrow> endpoint" where
  "endpoint_of u = [''url'' \<mapsto> u]"

section \<open>Selection: round-robin order and totality\<close>

lemma roundrobin_step:
  assumes "endpoints \<noteq> []"
  shows "choose_endpoint endpoints ''roundrobin'' state r =
           (Inr ((endpoints ! nat (state_get state ''idx'' 0 mod int (length endpoints))) ''url''),
            state(''idx'' \<mapsto> (state_get state ''idx'' 0 + 1) mod int (length endpoints)))"
proof -
  let ?n = "int (length endpoints)"
  let ?j = "state_get state ''idx'' 0 mod ?n"
  from assms have n: "0 < ?n" by simp
  then have j: "0 \<le> ?j" "?j < ?n" by simp_all
  have m: "py_mod (state_get state ''idx'' 0) ?n = Inr ?j"
       "py_mod (state_get state ''idx'' 0 + 1) ?n = Inr ((state_get state ''idx'' 0 + 1) mod ?n)"
    using n by (simp_all add: py_mod_def)
  have i: "py_index endpoints ?j = Inr (endpoints ! nat ?j)"
    using j by (simp add: py_index_def)
  show ?thesis
    using assms by (simp add: choose_endpoint_def Let_def m i)
qed

lemma roundrobin_seq:
  assumes "endpoints \<noteq> []" and "state_get state ''idx'' 0 = int c"
  shows "choose_seq endpoints ''roundrobin'' state rs =
           map (\<lambda>k. Inr ((endpoints ! ((c + k) mod length endpoints)) ''url'')) [0..<length rs]"
  using assms(2)
proof (induction rs arbitrary: state c)
  case Nil
  then show ?case by simp
next
  case (Cons r rs)
  let ?n = "length endpoints"
  let ?st = "state(''idx'' \<mapsto> (int c + 1) mod int ?n)"
  have pos: "0 < ?n" using assms(1) by simp
  have cur: "state_get ?st ''idx'' 0 = int ((c + 1) mod ?n)"
    by (simp add: state_get_def zmod_int add.commute)
  have hd: "nat (int c mod int ?n) = c mod ?n"
    by (simp add: nat_mod_distrib)
  have tl: "choose_seq endpoints ''roundrobin'' ?st rs =
              map (\<lambda>k. Inr ((endpoints ! (((c + 1) mod ?n + k) mod ?n)) ''url'')) [0..<length rs]"
    by (rule Cons.IH [OF cur])
  have shift: "(Suc c mod ?n + k) mod ?n = Suc (c + k) mod ?n" for k
    by (metis add_Suc mod_add_left_eq)
  have "choose_seq endpoints ''roundrobin'' state (r # rs) =
          Inr ((endpoints ! (c mod ?n)) ''url'') #
          map (\<lambda>k. Inr ((endpoints ! ((c + Suc k) mod ?n)) ''url'')) [0..<length rs]"
    using roundrobin_step [OF assms(1), of state r] Cons.prems tl
    by (simp add: hd shift)
  also have "\<dots> = map (\<lambda>k. Inr ((endpoints ! ((c + k) mod ?n)) ''url'')) [0..<length (r # rs)]"
    by (simp add: upt_rec [of 0] map_Suc_upt [symmetric] del: upt_Suc)
  finally show ?case .
qed

text \<open>
  C1. Round-robin selection on a non-empty pool, called \<open>N\<close> times in sequence from the
  empty state dictionary the server starts with, returns the \<^verbatim>\<open>url\<close> entry of
  \<open>pool[k mod len(pool)]\<close> at call \<open>k\<close> (counting from 0): exact cyclic order from index 0.
\<close>

theorem C1_roundrobin_cyclic:
  assumes "endpoints \<noteq> []"
  shows "choose_seq endpoints ''roundrobin'' Map.empty rs =
           map (\<lambda>k. Inr ((endpoints ! (k mod length endpoints)) ''url'')) [0..<length rs]"
  using roundrobin_seq [OF assms, of Map.empty 0 rs]
  by (simp add: state_get_def)

theorem C1_roundrobin_cyclic_witness:
  "[endpoint_of ''A'', endpoint_of ''B'', endpoint_of ''C''] \<noteq> [] \<and>
   choose_seq [endpoint_of ''A'', endpoint_of ''B'', endpoint_of ''C''] ''roundrobin'' Map.empty
     [0, 0, 0, 0, 0] =
   [Inr (Some ''A''), Inr (Some ''B''), Inr (Some ''C''), Inr (Some ''A''), Inr (Some ''B'')]"
  using C1_roundrobin_cyclic
          [of "[endpoint_of ''A'', endpoint_of ''B'', endpoint_of ''C'']" "[0, 0, 0, 0, 0]"]
  by (simp add: endpoint_of_def upt_conv_Cons)

text \<open>
  C10. Selection is total and keeps its cursor in range. On an empty pool a modulus by
  the pool length, an index into the pool and \<^verbatim>\<open>random.choice\<close> would each raise, yet
  every policy returns \<^verbatim>\<open>None\<close> and leaves the state alone: none of them is evaluated.
  On a non-empty pool no policy raises; round-robin reads the entry at
  \<open>cursor mod len(pool)\<close>, which is in range whatever integer the stored cursor is, and
  stores a cursor in \<open>[0, len(pool))\<close>.
\<close>

theorem C10_selection_total:
  "(endpoints = [] \<longrightarrow>
      py_mod i (int (length endpoints)) = Inl ZeroDivisionError \<and>
      py_index endpoints j = Inl IndexError \<and>
      random_choice r endpoints = Inl IndexError \<and>
      choose_endpoint endpoints policy state r = (Inr None, state)) \<and>
   (endpoints \<noteq> [] \<longrightarrow>
      (\<exists>u state'. choose_endpoint endpoints policy state r = (Inr u, state')) \<and>
      nat (state_get state ''idx'' 0 mod int (length endpoints)) < length endpoints \<and>
      choose_endpoint endpoints ''roundrobin'' state r =
        (Inr ((endpoints ! nat (state_get state ''idx'' 0 mod int (length endpoints))) ''url''),
         state(''idx'' \<mapsto> (state_get state ''idx'' 0 + 1) mod int (length endpoints))) \<and>
      0 \<le> state_get (snd (choose_endpoint endpoints ''roundrobin'' state r)) ''idx'' 0 \<and>
      state_get (snd (choose_endpoint endpoints ''roundrobin'' state r)) ''idx'' 0
        < int (length endpoints))"
proof (intro conjI impI)
  assume e: "endpoints = []"
  show "py_mod i (int (length endpoints)) = Inl ZeroDivisionError"
    using e by (simp add: py_mod_def)
  show "py_index endpoints j = Inl IndexError"
    using e by (simp add: py_index_def)
  show "random_choice r endpoints = Inl IndexError"
    using e by (simp add: random_choice_def)
  show "choose_endpoint endpoints policy state r = (Inr None, state)"
    using e by (simp add: choose_endpoint_def)
next
  assume ne: "endpoints \<noteq> []"
  let ?n = "int (length endpoints)"
  from ne have n: "0 < ?n" by simp
  note step = roundrobin_step [OF ne, of state r]
  show "\<exists>u state'. choose_endpoint endpoints policy state r = (Inr u, state')"
  proof (cases "policy = ''roundrobin''")
    case True
    then show ?thesis using step by simp
  next
    case False
    then show ?thesis using ne by (simp add: choose_endpoint_def random_choice_def)
  qed
  show "nat (state_get state ''idx'' 0 mod ?n) < length endpoints"
    using n by (simp add: nat_less_iff)
  show "choose_endpoint endpoints ''roundrobin'' state r =
        (Inr ((endpoints ! nat (state_get state ''idx'' 0 mod ?n)) ''url''),
         state(''idx'' \<mapsto> (state_get state ''idx'' 0 + 1) mod ?n))"
    by (rule step)
  show "0 \<le> state_get (snd (choose_endpoint endpoints ''roundrobin'' state r)) ''idx'' 0"
    using n by (simp add: step state_get_def)
  show "state_get (snd (choose_endpoint endpoints ''roundrobin'' state r)) ''idx'' 0 < ?n"
    using n by (simp add: step state_get_def)
qed

theorem C10_selection_total_witness:
  "choose_endpoint [] ''random'' [''idx'' \<mapsto> 7] 4 = (Inr None, [''idx'' \<mapsto> 7]) \<and>
   choose_endpoint [] ''roundrobin'' [''idx'' \<mapsto> 7] 4 = (Inr None, [''idx'' \<mapsto> 7]) \<and>
   choose_endpoint [endpoint_of ''A'', endpoint_of ''B'', endpoint_of ''C''] ''roundrobin''
       [''idx'' \<mapsto> 7] 4 = (Inr (Some ''B''), [''idx'' \<mapsto> 2]) \<and>
   choose_endpoint [endpoint_of ''A'', endpoint_of ''B'', endpoint_of ''C''] ''roundrobin''
       [''idx'' \<mapsto> - 1] 4 = (Inr (Some ''C''), [''idx'' \<mapsto> 0])"
  using C10_selection_total [of "[]" 0 0 4 "''random''" "[''idx'' \<mapsto> 7]"]
        C10_selection_total [of "[]" 0 0 4 "''roundrobin''" "[''idx'' \<mapsto> 7]"]
        C10_selection_total [of "[endpoint_of ''A'', endpoint_of ''B'', endpoint_of ''C'']"
                                0 0 4 "''roundrobin''" "[''idx'' \<mapsto> 7]"]
        C10_selection_total [of "[endpoint_of ''A'', endpoint_of ''B'', endpoint_of ''C'']"
                                0 0 4 "''roundrobin''" "[''idx'' \<mapsto> - 1]"]
  by (simp add: endpoint_of_def state_get_def)

section \<open>Target extraction\<close>

lemma startswith_drop1:
  assumes "startswith p (a # b # q)"
  shows "drop 1 p \<noteq> []"
proof -
  from assms have "length (take (length (a # b # q)) p) = length (a # b # q)"
    by (simp add: startswith_def)
  then have "2 \<le> length p" by simp
  then show ?thesis by simp
qed

lemma extract_embedded:
  assumes "urlparse L (path req) = Inr parsed"
      and "startswith (ppath parsed) ''/http://'' \<or> startswith (ppath parsed) ''/https://''"
  shows "extract_target L req = Inr (Some (drop 1 (ppath parsed)))"
proof -
  have "drop 1 (ppath parsed) \<noteq> []"
    using assms(2) startswith_drop1 by blast
  then show ?thesis
    using assms by (simp add: extract_target_def Let_def falsy_def)
qed

lemma forward_no_target:
  assumes "extract_target L req = Inr t" and "falsy t"
  shows "forward L request ctx req state r =
           (Inr (json_reply L 400 [(''error'', ''No target URL specified'')] []), state)"
  using assms by (simp add: forward_def falsy_def Let_def split: option.splits)

text \<open>
  C2 (amended). When \<^verbatim>\<open>urlparse\<close> accepts the request target (it raises on some, and
  \<^verbatim>\<open>_forward\<close> does not catch that), the target is taken, in this order, from: the
  parsed path when it begins with \<^verbatim>\<open>/http://\<close> or \<^verbatim>\<open>/https://\<close>, without its leading
  slash; the whole request target when it is an absolute http or https URL with a host;
  the first value of the query parameter \<^verbatim>\<open>url\<close>, when not empty; the header
  \<^verbatim>\<open>X-Target-URL\<close>, when not empty. So a query parameter \<^verbatim>\<open>url=A\<close> wins over a header
  \<^verbatim>\<open>X-Target-URL: B\<close>, and a path-embedded URL wins over both. With none of the four,
  the reply is 400 with the error \<^verbatim>\<open>No target URL specified\<close>, no request goes out and no
  endpoint is selected.
\<close>

theorem C2_target_priority:
  assumes "urlparse L (path req) = Inr parsed"
  shows
  "(let embedded = (startswith (ppath parsed) ''/http://'' \<or> startswith (ppath parsed) ''/https://'');
        absolute = ((scheme parsed = ''http'' \<or> scheme parsed = ''https'') \<and>
                    netloc parsed \<noteq> [] \<and> path req \<noteq> []);
        url_values = parse_qs L (query parsed) ''url'';
        no_url = (url_values = None \<or> (\<exists>vs. url_values = Some ([] # vs)));
        hdr = headers_get (headers req) ''X-Target-URL''
    in (embedded \<longrightarrow> extract_target L req = Inr (Some (drop 1 (ppath parsed)))) \<and>
       (\<not> embedded \<and> absolute \<longrightarrow> extract_target L req = Inr (Some (path req))) \<and>
       (\<not> embedded \<and> \<not> absolute \<and> url_values = Some (u # us) \<and> u \<noteq> [] \<longrightarrow>
          extract_target L req = Inr (Some u)) \<and>
       (\<not> embedded \<and> \<not> absolute \<and> no_url \<and> hdr = Some h \<and> h \<noteq> [] \<longrightarrow>
          extract_target L req = Inr (Some h)) \<and>
       (\<not> embedded \<and> \<not> absolute \<and> no_url \<and> falsy hdr \<longrightarrow>
          forward L request ctx req state r =
            (Inr \<lparr>responses =
                    [\<lparr>status = 400,
                      sent_headers =
                        [(''Content-Type'', ''application/json''),
                         (''Content-Length'',
                          str_nat (length (json_dumps L [(''error'', ''No target URL specified'')])))],
                      body = json_dumps L [(''error'', ''No target URL specified'')]\<rparr>],
                  calls = [], dials = [],
                  access_log =
                    [(400, length (json_dumps L [(''error'', ''No target URL specified'')]))]\<rparr>,
             state)))"
proof -
  note parsed = assms
  let ?parsed = parsed
  let ?emb = "startswith (ppath ?parsed) ''/http://'' \<or> startswith (ppath ?parsed) ''/https://''"
  let ?abs = "(scheme ?parsed = ''http'' \<or> scheme ?parsed = ''https'') \<and>
              netloc ?parsed \<noteq> [] \<and> path req \<noteq> []"
  let ?q = "parse_qs L (query ?parsed) ''url''"
  let ?nourl = "?q = None \<or> (\<exists>vs. ?q = Some ([] # vs))"
  let ?hdr = "headers_get (headers req) ''X-Target-URL''"
  have 1: "extract_target L req = Inr (Some (drop 1 (ppath ?parsed)))" if "?emb"
    using parsed that by (rule extract_embedded)
  have 2: "extract_target L req = Inr (Some (path req))" if "\<not> ?emb" "?abs"
    using parsed that by (auto simp add: extract_target_def Let_def falsy_def)
  have 3: "extract_target L req = Inr (Some u)"
    if "\<not> ?emb" "\<not> ?abs" "?q = Some (u # us)" "u \<noteq> []"
    using parsed that by (auto simp add: extract_target_def Let_def falsy_def py_index_def)
  have 4: "extract_target L req = Inr (Some h)"
    if "\<not> ?emb" "\<not> ?abs" "?nourl" "?hdr = Some h" "h \<noteq> []"
    using parsed that by (auto simp add: extract_target_def Let_def falsy_def py_index_def)
  have 5: "\<exists>t. extract_target L req = Inr t \<and> falsy t"
    if "\<not> ?emb" "\<not> ?abs" "?nourl" "falsy ?hdr"
    using parsed that
    by (auto simp add: extract_target_def Let_def falsy_def py_index_def split: option.splits)
  have 6: "forward L request ctx req state r =
             (Inr (json_reply L 400 [(''error'', ''No target URL specified'')] []), state)"
    if "\<not> ?emb" "\<not> ?abs" "?nourl" "falsy ?hdr"
    using 5 [OF that] forward_no_target by blast
  show ?thesis
    unfolding Let_def using 1 2 3 4 6 by (simp add: json_reply_def Let_def)
qed

lemma no_target_body_length:
  "length (json_plain [(''error'', ''No target URL specified'')]) = 36"
  by code_simp

lemma str_nat_36: "str_nat 36 = ''36''"
  by code_simp

lemma get_target_header:
  "headers_get [(''x-target-url'', ''http://b.example'')] ''X-Target-URL'' = Some ''http://b.example''"
  "headers_get [(''X-Target-URL'', ''http://b.example'')] ''X-Target-URL'' = Some ''http://b.example''"
  "headers_get [(''Accept'', ''*/*'')] ''X-Target-URL'' = None"
  "headers_get [] ''X-Target-URL'' = None"
  by code_simp+

theorem C2_target_priority_witness:
  "urlparse cpython ''/https://example.com'' =
     Inr \<lparr>scheme = [], netloc = [], ppath = ''/https://example.com'', query = []\<rparr> \<and>
   urlparse cpython ''/?url=http://a.example'' =
     Inr \<lparr>scheme = [], netloc = [], ppath = ''/'', query = ''url=http://a.example''\<rparr> \<and>
   extract_target cpython
     \<lparr>command = ''GET'', path = ''/https://example.com'', headers = [], rfile = []\<rparr> =
     Inr (Some ''https://example.com'') \<and>
   extract_target cpython
     \<lparr>command = ''GET'', path = ''http://example.com/p?q=1'',
      headers = [(''X-Target-URL'', ''http://b.example'')], rfile = []\<rparr> =
     Inr (Some ''http://example.com/p?q=1'') \<and>
   extract_target cpython
     \<lparr>command = ''GET'', path = ''/?url=http://a.example'',
      headers = [(''X-Target-URL'', ''http://b.example'')], rfile = []\<rparr> =
     Inr (Some ''http://a.example'') \<and>
   extract_target cpython
     \<lparr>command = ''GET'', path = ''/'',
      headers = [(''x-target-url'', ''http://b.example'')], rfile = []\<rparr> =
     Inr (Some ''http://b.example'') \<and>
   forward cpython (\<lambda>c. Inl (RequestException ''unreachable''))
     \<lparr>ctx_endpoints = [endpoint_of ''https://w1.example''], ctx_policy = ''roundrobin'',
      ctx_timeout = 30\<rparr>
     \<lparr>command = ''GET'', path = ''/'', headers = [(''Accept'', ''*/*'')], rfile = []\<rparr>
     Map.empty 0 =
     (Inr \<lparr>responses =
             [\<lparr>status = 400,
               sent_headers = [(''Content-Type'', ''application/json''), (''Content-Length'', ''36'')],
               body = json_plain [(''error'', ''No target URL specified'')]\<rparr>],
           calls = [], dials = [], access_log = [(400, 36)]\<rparr>,
      Map.empty)"
  using C2_target_priority
          [where L = cpython and
                 parsed = "\<lparr>scheme = [], netloc = [], ppath = ''/https://example.com'',
                            query = []\<rparr>" and
                 req = "\<lparr>command = ''GET'', path = ''/https://example.com'', headers = [],
                         rfile = []\<rparr>"]
        C2_target_priority
          [where L = cpython and
                 parsed = "\<lparr>scheme = ''http'', netloc = ''example.com'', ppath = ''/p'',
                            query = ''q=1''\<rparr>" and
                 req = "\<lparr>command = ''GET'', path = ''http://example.com/p?q=1'',
                         headers = [(''X-Target-URL'', ''http://b.example'')], rfile = []\<rparr>"]
        C2_target_priority
          [where L = cpython and u = "''http://a.example''" and us = "[]" and
                 parsed = "\<lparr>scheme = [], netloc = [], ppath = ''/'',
                            query = ''url=http://a.example''\<rparr>" and
                 req = "\<lparr>command = ''GET'', path = ''/?url=http://a.example'',
                         headers = [(''X-Target-URL'', ''http://b.example'')], rfile = []\<rparr>"]
        C2_target_priority
          [where L = cpython and h = "''http://b.example''" and
                 parsed = "\<lparr>scheme = [], netloc = [], ppath = ''/'', query = []\<rparr>" and
                 req = "\<lparr>command = ''GET'', path = ''/'',
                         headers = [(''x-target-url'', ''http://b.example'')], rfile = []\<rparr>"]
        C2_target_priority
          [where L = cpython and request = "\<lambda>c. Inl (RequestException ''unreachable'')" and
                 parsed = "\<lparr>scheme = [], netloc = [], ppath = ''/'', query = []\<rparr>" and
                 ctx = "\<lparr>ctx_endpoints = [endpoint_of ''https://w1.example''],
                         ctx_policy = ''roundrobin'', ctx_timeout = 30\<rparr>" and
                 state = Map.empty and r = 0 and
                 req = "\<lparr>command = ''GET'', path = ''/'', headers = [(''Accept'', ''*/*'')],
                         rfile = []\<rparr>"]
  by (simp add: cpython_def urlparse_simple_def startswith_def split_at_def parse_qs_plain_def
        parse_qsl_plain_def get_target_header Let_def falsy_def
        no_target_body_length str_nat_36)

text \<open>
  The order stated for C2 puts the query parameter first. For the request target
  \<^verbatim>\<open>/http://a.example/x?url=http://b.example\<close> the query parameter \<^verbatim>\<open>url\<close> is
  \<^verbatim>\<open>http://b.example\<close>, and the target used is the path-embedded \<^verbatim>\<open>http://a.example/x\<close>.
\<close>

theorem C2_query_first_counterexample:
  "urlparse cpython ''/http://a.example/x?url=http://b.example'' =
     Inr \<lparr>scheme = [], netloc = [], ppath = ''/http://a.example/x'',
          query = ''url=http://b.example''\<rparr> \<and>
   parse_qs cpython ''url=http://b.example'' ''url'' = Some [''http://b.example''] \<and>
   extract_target cpython
     \<lparr>command = ''GET'', path = ''/http://a.example/x?url=http://b.example'', headers = [],
      rfile = []\<rparr> \<noteq> Inr (Some ''http://b.example'') \<and>
   extract_target cpython
     \<lparr>command = ''GET'', path = ''/http://a.example/x?url=http://b.example'', headers = [],
      rfile = []\<rparr> = Inr (Some ''http://a.example/x'')"
  by (simp add: extract_target_def cpython_def urlparse_simple_def startswith_def split_at_def
        parse_qs_plain_def parse_qsl_plain_def Let_def falsy_def)

section \<open>The outbound request\<close>

lemma dict_set_names:
  "map fst (dict_set d k v) = (if k \<in> set (map fst d) then map fst d else map fst d @ [k])"
  by (induction d) force+

lemma dict_set_keys: "fst ` set (dict_set d k v) = insert k (fst ` set d)"
proof -
  have "set (map fst (dict_set d k v)) = insert k (set (map fst d))"
    unfolding dict_set_names by auto
  then show ?thesis by simp
qed

lemma dict_set_distinct: "distinct (map fst d) \<Longrightarrow> distinct (map fst (dict_set d k v))"
  unfolding dict_set_names by simp

lemma dict_set_map_of: "map_of (dict_set d k v) = (map_of d)(k \<mapsto> v)"
  by (induction d) auto

lemma dict_set_new: "k \<notin> fst ` set d \<Longrightarrow> dict_set d k v = d @ [(k, v)]"
  by (induction d) auto

lemma copy_headers_keys:
  "fst ` set (copy_headers items acc) =
     fst ` set acc \<union> {k \<in> fst ` set items. lower k \<notin> exclude}"
proof (induction items arbitrary: acc)
  case Nil
  then show ?case by simp
next
  case (Cons a items)
  obtain k v where a: "a = (k, v)" by (cases a)
  show ?case
  proof (cases "lower k \<in> exclude")
    case True
    then show ?thesis using Cons [of acc] a by auto
  next
    case False
    then show ?thesis using Cons [of "dict_set acc k v"] a by (auto simp add: dict_set_keys)
  qed
qed

lemma copy_headers_distinct:
  "distinct (map fst acc) \<Longrightarrow> distinct (map fst (copy_headers items acc))"
proof (induction items arbitrary: acc)
  case Nil
  then show ?case by simp
next
  case (Cons a items)
  obtain k v where a: "a = (k, v)" by (cases a)
  show ?case
    using Cons.IH [of acc] Cons.IH [of "dict_set acc k v"] Cons.prems a
    by (simp add: dict_set_distinct)
qed

lemma copy_headers_map_of:
  "map_of (copy_headers items acc) k =
     (if lower k \<in> exclude then map_of acc k
      else (case map_of (rev items) k of None \<Rightarrow> map_of acc k | Some v \<Rightarrow> Some v))"
proof (induction items arbitrary: acc)
  case Nil
  then show ?case by simp
next
  case (Cons a items)
  obtain k' v' where a: "a = (k', v')" by (cases a)
  show ?case
  proof (cases "lower k' \<in> exclude")
    case True
    then show ?thesis
      using Cons [of acc] a by (auto simp add: map_add_def split: option.splits)
  next
    case False
    then show ?thesis
      using Cons [of "dict_set acc k' v'"] a
      by (auto simp add: map_add_def dict_set_map_of split: option.splits)
  qed
qed

lemma copy_headers_filter:
  assumes "distinct (map fst items)" and "fst ` set items \<inter> fst ` set acc = {}"
  shows "copy_headers items acc = acc @ filter (\<lambda>kv. lower (fst kv) \<notin> exclude) items"
  using assms
proof (induction items arbitrary: acc)
  case Nil
  then show ?case by simp
next
  case (Cons a items)
  obtain k v where a: "a = (k, v)" by (cases a)
  from Cons.prems a have d: "distinct (map fst items)" and k: "k \<notin> fst ` set items"
    and kacc: "k \<notin> fst ` set acc" and i: "fst ` set items \<inter> fst ` set acc = {}"
    by auto
  show ?case
  proof (cases "lower k \<in> exclude")
    case True
    then show ?thesis using Cons.IH [OF d i] a by simp
  next
    case False
    have "fst ` set items \<inter> fst ` set (dict_set acc k v) = {}"
      using i k by (auto simp add: dict_set_keys)
    from Cons.IH [OF d this] False a kacc show ?thesis
      by (simp add: dict_set_new)
  qed
qed

lemma forward_issues:
  assumes "extract_target L req = Inr (Some t)" and "t \<noteq> []"
      and "choose_endpoint (ctx_endpoints ctx) (ctx_policy ctx) state r = (Inr (Some w), state')"
      and "w \<noteq> []" and "read_data L req = Inr d"
  shows "forward L request ctx req state r =
           (case request \<lparr>out_method = command req, out_url = w @ ''?url='' @ quote L t,
                           out_headers = copy_headers (headers req) [], out_data = d,
                           out_timeout = ctx_timeout ctx\<rparr> of
              Inr resp \<Rightarrow>
                (Inr (relay_response resp
                        \<lparr>out_method = command req, out_url = w @ ''?url='' @ quote L t,
                         out_headers = copy_headers (headers req) [], out_data = d,
                         out_timeout = ctx_timeout ctx\<rparr>), state')
            | Inl (RequestException msg) \<Rightarrow>
                (Inr (json_reply L 502 [(''error'', ''Proxy request failed''), (''message'', msg)]
                        [\<lparr>out_method = command req, out_url = w @ ''?url='' @ quote L t,
                          out_headers = copy_headers (headers req) [], out_data = d,
                          out_timeout = ctx_timeout ctx\<rparr>]), state')
            | Inl (OtherException e) \<Rightarrow> (Inl e, state'))"
  unfolding forward_def Let_def using assms by simp

lemma read_data_get:
  "command req \<in> {''GET'', ''HEAD''} \<Longrightarrow> read_data L req = Inr None"
  by (simp add: read_data_def)

text \<open>
  Every call that a run of \<^verbatim>\<open>_forward\<close> makes is built from the resolved target, the
  selected endpoint, the copied headers and the body read.
\<close>

lemma forward_call_inv:
  assumes "forward L request ctx req state r = (Inr res, state')" and "c \<in> set (calls res)"
  obtains t w d where
    "extract_target L req = Inr (Some t)" and "t \<noteq> []" and
    "choose_endpoint (ctx_endpoints ctx) (ctx_policy ctx) state r = (Inr (Some w), state')" and
    "w \<noteq> []" and "read_data L req = Inr d" and
    "c = \<lparr>out_method = command req, out_url = w @ ''?url='' @ quote L t,
          out_headers = copy_headers (headers req) [], out_data = d,
          out_timeout = ctx_timeout ctx\<rparr>"
proof (cases "extract_target L req")
  case (Inl e)
  with assms show ?thesis by (simp add: forward_def)
next
  case (Inr target)
  note target = this
  show ?thesis
  proof (cases "falsy target")
    case True
    from forward_no_target [OF target True, of request ctx state r] assms
    show ?thesis by (simp add: json_reply_def Let_def)
  next
    case False
    then obtain t where t: "target = Some t" "t \<noteq> []"
      by (auto simp add: falsy_def split: option.splits)
    obtain sel st1 where ch:
      "choose_endpoint (ctx_endpoints ctx) (ctx_policy ctx) state r = (sel, st1)"
      by (cases "choose_endpoint (ctx_endpoints ctx) (ctx_policy ctx) state r")
    show ?thesis
    proof (cases sel)
      case (Inl e)
      with assms target t ch show ?thesis by (simp add: forward_def)
    next
      case (Inr worker)
      note worker = this
      show ?thesis
      proof (cases "falsy worker")
        case True
        with assms target t ch worker show ?thesis
          by (auto simp add: forward_def falsy_def json_reply_def Let_def split: option.splits)
      next
        case False
        then obtain w where w: "worker = Some w" "w \<noteq> []"
          by (auto simp add: falsy_def split: option.splits)
        show ?thesis
        proof (cases "read_data L req")
          case (Inl e)
          with assms target t ch worker w show ?thesis by (simp add: forward_def)
        next
          case (Inr d)
          let ?c = "\<lparr>out_method = command req, out_url = w @ ''?url='' @ quote L t,
                     out_headers = copy_headers (headers req) [], out_data = d,
                     out_timeout = ctx_timeout ctx\<rparr>"
          have t': "extract_target L req = Inr (Some t)" using target t by simp
          have ch': "choose_endpoint (ctx_endpoints ctx) (ctx_policy ctx) state r =
                       (Inr (Some w), st1)"
            using ch worker w by simp
          note run = forward_issues [OF t' t(2) ch' w(2) Inr, of request]
          have "st1 = state' \<and> c = ?c"
          proof (cases "request ?c")
            case (Inr resp)
            with run assms show ?thesis by (simp add: relay_response_def)
          next
            case (Inl err)
            show ?thesis
            proof (cases err)
              case (RequestException msg)
              with Inl run assms show ?thesis by (simp add: json_reply_def Let_def)
            next
              case (OtherException e)
              with Inl run assms show ?thesis by simp
            qed
          qed
          with that [OF t' t(2) _ w(2) Inr] ch' show ?thesis by simp
        qed
      qed
    qed
  qed
qed

lemma forward_calls:
  assumes "forward L request ctx req state r = (Inr res, state')" and "c \<in> set (calls res)"
  shows "case request c of
           Inr resp \<Rightarrow> res = relay_response resp c
         | Inl (RequestException msg) \<Rightarrow>
             res = json_reply L 502 [(''error'', ''Proxy request failed''), (''message'', msg)] [c]
         | Inl (OtherException e) \<Rightarrow> False"
proof -
  from assms obtain t w d where
    h: "extract_target L req = Inr (Some t)" "t \<noteq> []"
       "choose_endpoint (ctx_endpoints ctx) (ctx_policy ctx) state r = (Inr (Some w), state')"
       "w \<noteq> []" "read_data L req = Inr d" and
    c: "c = \<lparr>out_method = command req, out_url = w @ ''?url='' @ quote L t,
              out_headers = copy_headers (headers req) [], out_data = d,
              out_timeout = ctx_timeout ctx\<rparr>"
    by (rule forward_call_inv)
  from forward_issues [OF h, of request] assms(1) show ?thesis
    unfolding c [symmetric]
    by (cases "request c") (auto split: request_error.splits)
qed

text \<open>
  What holds of the headers of every call made: no excluded name is among them, and a
  name outside the exclusion set carries the value of its last occurrence.
\<close>

lemma outbound_call_headers:
  assumes "forward L request ctx req state r = (Inr res, state')" and "c \<in> set (calls res)"
  shows "out_method c = command req \<and>
         (\<forall>k v. (k, v) \<in> set (out_headers c) \<longrightarrow> lower k \<notin> exclude) \<and>
         (\<forall>k. lower k \<notin> exclude \<longrightarrow> map_of (out_headers c) k = map_of (rev (headers req)) k)"
proof -
  from assms obtain t w d where
    c: "c = \<lparr>out_method = command req, out_url = w @ ''?url='' @ quote L t,
              out_headers = copy_headers (headers req) [], out_data = d,
              out_timeout = ctx_timeout ctx\<rparr>"
    by (rule forward_call_inv)
  have 1: "\<forall>k v. (k, v) \<in> set (copy_headers (headers req) []) \<longrightarrow> lower k \<notin> exclude"
  proof (intro allI impI)
    fix k v
    assume "(k, v) \<in> set (copy_headers (headers req) [])"
    then have "k \<in> fst ` set (copy_headers (headers req) [])" by force
    then show "lower k \<notin> exclude" by (simp add: copy_headers_keys)
  qed
  have 2: "\<forall>k. lower k \<notin> exclude \<longrightarrow>
               map_of (copy_headers (headers req) []) k = map_of (rev (headers req)) k"
    by (simp add: copy_headers_map_of split: option.splits)
  from 1 2 show ?thesis unfolding c by simp
qed

section \<open>A repeated header name\<close>

lemma sample_roundrobin:
  "choose_endpoint [endpoint_of ''https://w1.example''] ''roundrobin'' Map.empty 0 =
     (Inr (Some ''https://w1.example''), [''idx'' \<mapsto> 0])"
  by (simp add: choose_endpoint_def state_get_def py_mod_def py_index_def endpoint_of_def)

text \<open>
  C3. The claim has the outbound URL, the method, every inbound header outside the
  exclusion set and the body carried over. The loop that fills \<^verbatim>\<open>fwd_headers\<close> assigns by
  name, so a name sent twice keeps its last value only. On
  \<^verbatim>\<open>GET /?url=https://example.com/x\<close> with the headers \<^verbatim>\<open>Accept: text/html\<close> and
  \<^verbatim>\<open>Accept: application/json\<close>, where \<^verbatim>\<open>Accept\<close> is not an excluded name, the one call made
  carries \<^verbatim>\<open>Accept: application/json\<close> alone: \<^verbatim>\<open>Accept: text/html\<close> is not copied.
\<close>

theorem C3_repeated_header_lost:
  "(''Accept'', ''text/html'') \<in>
     set (headers \<lparr>command = ''GET'', path = ''/?url=https://example.com/x'',
                   headers = [(''Accept'', ''text/html''), (''Accept'', ''application/json'')],
                   rfile = []\<rparr>) \<and>
   lower ''Accept'' \<notin> exclude \<and>
   (''Accept'', ''text/html'') \<notin> set [(''Accept'', ''application/json'')] \<and>
   fst (forward cpython (\<lambda>c. Inl (RequestException ''connection refused''))
          \<lparr>ctx_endpoints = [endpoint_of ''https://w1.example''], ctx_policy = ''roundrobin'',
           ctx_timeout = 30\<rparr>
          \<lparr>command = ''GET'', path = ''/?url=https://example.com/x'',
           headers = [(''Accept'', ''text/html''), (''Accept'', ''application/json'')],
           rfile = []\<rparr>
          Map.empty 0) =
     Inr \<lparr>responses =
            [\<lparr>status = 502,
              sent_headers = [(''Content-Type'', ''application/json''), (''Content-Length'', ''66'')],
              body = json_plain [(''error'', ''Proxy request failed''),
                                 (''message'', ''connection refused'')]\<rparr>],
          calls =
            [\<lparr>out_method = ''GET'',
              out_url = ''https://w1.example?url=https%3A%2F%2Fexample.com%2Fx'',
              out_headers = [(''Accept'', ''application/json'')], out_data = None,
              out_timeout = 30\<rparr>],
          dials = [], access_log = [(502, 66)]\<rparr>"
  by code_simp

section \<open>Relaying the response, failures and the empty pool\<close>

lemma relay_headers_filter:
  "relay_headers items =
     filter (\<lambda>kv. lower (fst kv) \<notin> {''transfer-encoding'', ''content-encoding'', ''content-length''})
       items"
  by (induction items rule: relay_headers.induct) (auto simp add: excluded_resp_def)

text \<open>
  C4. Whenever the outbound call of a forwarded request returns a response, the one
  response relayed to the client has the upstream status code; its headers are the
  upstream headers in order, without those named transfer-encoding, content-encoding or
  content-length in any letter case, followed by a Content-Length header with the
  length of the upstream content; and its body is the upstream content.
\<close>

theorem C4_response_relay:
  assumes "forward L request ctx req state r = (Inr res, state')"
      and "c \<in> set (calls res)" and "request c = Inr resp"
  shows "responses res =
           [\<lparr>status = status_code resp,
             sent_headers =
               filter (\<lambda>kv. lower (fst kv) \<notin>
                            {''transfer-encoding'', ''content-encoding'', ''content-length''})
                 (resp_headers resp) @
               [(''Content-Length'', str_nat (length (content resp)))],
             body = content resp\<rparr>]"
  using forward_calls [OF assms(1,2)] assms(3)
  by (simp add: relay_response_def relay_headers_filter)

text \<open>
  C6. Whenever the outbound call of a forwarded request raises a RequestException,
  that call is the only one made (no retry), and the one response sent has status 502,
  the JSON content type and the body \<^verbatim>\<open>{"error": "Proxy request failed", "message": ...}\<close>
  carrying the text of the exception; the access log records 502 with the body length.
\<close>

theorem C6_network_failure:
  assumes "forward L request ctx req state r = (Inr res, state')"
      and "c \<in> set (calls res)" and "request c = Inl (RequestException msg)"
  shows "calls res = [c] \<and>
         responses res =
           [\<lparr>status = 502,
             sent_headers =
               [(''Content-Type'', ''application/json''),
                (''Content-Length'',
                 str_nat (length (json_dumps L [(''error'', ''Proxy request failed''),
                                                (''message'', msg)])))],
             body = json_dumps L [(''error'', ''Proxy request failed''), (''message'', msg)]\<rparr>] \<and>
         access_log res =
           [(502, length (json_dumps L [(''error'', ''Proxy request failed''),
                                        (''message'', msg)]))]"
  using forward_calls [OF assms(1,2)] assms(3)
  by (simp add: json_reply_def Let_def)

text \<open>
  C5. On an empty pool \<^verbatim>\<open>_choose_endpoint\<close> returns \<^verbatim>\<open>None\<close> under every policy, without
  raising and without touching the state; a request whose target is resolved is then
  answered with 503 and the error \<^verbatim>\<open>No worker endpoints available\<close>, and no outbound
  call is made.
\<close>

theorem C5_empty_pool:
  "choose_endpoint [] policy state r = (Inr None, state) \<and>
   (ctx_endpoints ctx = [] \<and> extract_target L req = Inr (Some t) \<and> t \<noteq> [] \<longrightarrow>
      forward L request ctx req state r =
        (Inr \<lparr>responses =
                [\<lparr>status = 503,
                  sent_headers =
                    [(''Content-Type'', ''application/json''),
                     (''Content-Length'',
                      str_nat (length (json_dumps L [(''error'', ''No worker endpoints available'')])))],
                  body = json_dumps L [(''error'', ''No worker endpoints available'')]\<rparr>],
              calls = [], dials = [],
              access_log =
                [(503, length (json_dumps L [(''error'', ''No worker endpoints available'')]))]\<rparr>,
         state))"
  by (simp add: choose_endpoint_def forward_def json_reply_def Let_def)

lemma sample_get_run:
  "forward cpython request
     \<lparr>ctx_endpoints = [endpoint_of ''https://w1.example''], ctx_policy = ''roundrobin'',
      ctx_timeout = 30\<rparr>
     \<lparr>command = ''GET'', path = ''/?url=https://example.com/x'',
      headers = [(''Host'', ''127.0.0.1:8080''), (''Accept'', ''*/*'')], rfile = []\<rparr>
     Map.empty 0 =
     (case request \<lparr>out_method = ''GET'',
                     out_url = ''https://w1.example?url=https%3A%2F%2Fexample.com%2Fx'',
                     out_headers = [(''Accept'', ''*/*'')], out_data = None, out_timeout = 30\<rparr> of
        Inr resp \<Rightarrow>
          (Inr (relay_response resp
                  \<lparr>out_method = ''GET'',
                   out_url = ''https://w1.example?url=https%3A%2F%2Fexample.com%2Fx'',
                   out_headers = [(''Accept'', ''*/*'')], out_data = None, out_timeout = 30\<rparr>),
           [''idx'' \<mapsto> 0])
      | Inl (RequestException msg) \<Rightarrow>
          (Inr (json_reply cpython 502 [(''error'', ''Proxy request failed''), (''message'', msg)]
                  [\<lparr>out_method = ''GET'',
                    out_url = ''https://w1.example?url=https%3A%2F%2Fexample.com%2Fx'',
                    out_headers = [(''Accept'', ''*/*'')], out_data = None, out_timeout = 30\<rparr>]),
           [''idx'' \<mapsto> 0])
      | Inl (OtherException e) \<Rightarrow> (Inl e, [''idx'' \<mapsto> 0]))"
proof -
  let ?req = "\<lparr>command = ''GET'', path = ''/?url=https://example.com/x'',
               headers = [(''Host'', ''127.0.0.1:8080''), (''Accept'', ''*/*'')], rfile = []\<rparr>"
  let ?ctx = "\<lparr>ctx_endpoints = [endpoint_of ''https://w1.example''], ctx_policy = ''roundrobin'',
               ctx_timeout = 30\<rparr>"
  have h1: "extract_target cpython ?req = Inr (Some ''https://example.com/x'')"
    by code_simp
  have h2: "''https://example.com/x'' \<noteq> []" and h4: "''https://w1.example'' \<noteq> []"
    by simp_all
  have h3: "choose_endpoint (ctx_endpoints ?ctx) (ctx_policy ?ctx) Map.empty 0 =
              (Inr (Some ''https://w1.example''), [''idx'' \<mapsto> 0])"
    by (simp add: sample_roundrobin)
  have h5: "read_data cpython ?req = Inr None"
    by (simp add: read_data_get)
  have u: "''https://w1.example'' @ ''?url='' @ quote cpython ''https://example.com/x'' =
             ''https://w1.example?url=https%3A%2F%2Fexample.com%2Fx''"
    by code_simp
  have c: "copy_headers [(''Host'', ''127.0.0.1:8080''), (''Accept'', ''*/*'')] [] =
             [(''Accept'', ''*/*'')]"
    by code_simp
  show ?thesis
    using forward_issues [OF h1 h2 h3 h4 h5, of request]
    unfolding u request.select_convs proxy_context.select_convs c .
qed

lemma sample_relay_headers:
  "filter (\<lambda>kv. lower (fst kv) \<notin> {''transfer-encoding'', ''content-encoding'', ''content-length''})
     [(''Content-Type'', ''text/plain''), (''Content-Length'', ''999''),
      (''Transfer-Encoding'', ''chunked''), (''content-encoding'', ''gzip''), (''X-Trace'', ''1'')] =
   [(''Content-Type'', ''text/plain''), (''X-Trace'', ''1'')]"
  by code_simp

lemma str_nat_5: "str_nat 5 = ''5''"
  by code_simp

theorem C4_response_relay_witness:
  "\<exists>res c.
     forward cpython
       (\<lambda>c. Inr \<lparr>status_code = 201,
                  resp_headers = [(''Content-Type'', ''text/plain''), (''Content-Length'', ''999''),
                                  (''Transfer-Encoding'', ''chunked''),
                                  (''content-encoding'', ''gzip''), (''X-Trace'', ''1'')],
                  content = ''hello''\<rparr>)
       \<lparr>ctx_endpoints = [endpoint_of ''https://w1.example''], ctx_policy = ''roundrobin'',
        ctx_timeout = 30\<rparr>
       \<lparr>command = ''GET'', path = ''/?url=https://example.com/x'',
        headers = [(''Host'', ''127.0.0.1:8080''), (''Accept'', ''*/*'')], rfile = []\<rparr>
       Map.empty 0 = (Inr res, [''idx'' \<mapsto> 0]) \<and>
     c \<in> set (calls res) \<and>
     responses res =
       [\<lparr>status = 201,
         sent_headers = [(''Content-Type'', ''text/plain''), (''X-Trace'', ''1''),
                         (''Content-Length'', ''5'')],
         body = ''hello''\<rparr>]"
proof -
  let ?resp = "\<lparr>status_code = 201,
                resp_headers = [(''Content-Type'', ''text/plain''), (''Content-Length'', ''999''),
                                (''Transfer-Encoding'', ''chunked''),
                                (''content-encoding'', ''gzip''), (''X-Trace'', ''1'')],
                content = ''hello''\<rparr>"
  let ?c = "\<lparr>out_method = ''GET'',
             out_url = ''https://w1.example?url=https%3A%2F%2Fexample.com%2Fx'',
             out_headers = [(''Accept'', ''*/*'')], out_data = None, out_timeout = 30\<rparr>"
  let ?run = "forward cpython (\<lambda>c. Inr ?resp)
       \<lparr>ctx_endpoints = [endpoint_of ''https://w1.example''], ctx_policy = ''roundrobin'',
        ctx_timeout = 30\<rparr>
       \<lparr>command = ''GET'', path = ''/?url=https://example.com/x'',
        headers = [(''Host'', ''127.0.0.1:8080''), (''Accept'', ''*/*'')], rfile = []\<rparr>
       Map.empty 0"
  have run: "?run = (Inr (relay_response ?resp ?c), [''idx'' \<mapsto> 0])"
    by (simp add: sample_get_run)
  have mem: "?c \<in> set (calls (relay_response ?resp ?c))"
    by (simp add: relay_response_def)
  have ok: "(\<lambda>c. Inr ?resp) ?c = (Inr ?resp :: request_error + upstream_response)"
    by simp
  have len: "length ''hello'' = 5"
    by simp
  from C4_response_relay [OF run mem ok]
  have "responses (relay_response ?resp ?c) =
          [\<lparr>status = 201,
            sent_headers = [(''Content-Type'', ''text/plain''), (''X-Trace'', ''1''),
                            (''Content-Length'', ''5'')],
            body = ''hello''\<rparr>]"
    unfolding upstream_response.select_convs sample_relay_headers len str_nat_5 by simp
  with run mem show ?thesis by blast
qed

lemma failure_body_length:
  "length (json_plain [(''error'', ''Proxy request failed''), (''message'', ''connection refused'')]) = 66"
  by code_simp

lemma str_nat_66: "str_nat 66 = ''66''"
  by code_simp

theorem C6_network_failure_witness:
  "\<exists>res c.
     forward cpython (\<lambda>c. Inl (RequestException ''connection refused''))
       \<lparr>ctx_endpoints = [endpoint_of ''https://w1.example''], ctx_policy = ''roundrobin'',
        ctx_timeout = 30\<rparr>
       \<lparr>command = ''GET'', path = ''/?url=https://example.com/x'',
        headers = [(''Host'', ''127.0.0.1:8080''), (''Accept'', ''*/*'')], rfile = []\<rparr>
       Map.empty 0 = (Inr res, [''idx'' \<mapsto> 0]) \<and>
     c \<in> set (calls res) \<and>
     calls res = [c] \<and>
     responses res =
       [\<lparr>status = 502,
         sent_headers = [(''Content-Type'', ''application/json''), (''Content-Length'', ''66'')],
         body = json_plain [(''error'', ''Proxy request failed''),
                            (''message'', ''connection refused'')]\<rparr>] \<and>
     access_log res = [(502, 66)]"
proof -
  let ?c = "\<lparr>out_method = ''GET'',
             out_url = ''https://w1.example?url=https%3A%2F%2Fexample.com%2Fx'',
             out_headers = [(''Accept'', ''*/*'')], out_data = None, out_timeout = 30\<rparr>"
  let ?res = "json_reply cpython 502
                [(''error'', ''Proxy request failed''), (''message'', ''connection refused'')] [?c]"
  let ?run = "forward cpython (\<lambda>c. Inl (RequestException ''connection refused''))
       \<lparr>ctx_endpoints = [endpoint_of ''https://w1.example''], ctx_policy = ''roundrobin'',
        ctx_timeout = 30\<rparr>
       \<lparr>command = ''GET'', path = ''/?url=https://example.com/x'',
        headers = [(''Host'', ''127.0.0.1:8080''), (''Accept'', ''*/*'')], rfile = []\<rparr>
       Map.empty 0"
  have run: "?run = (Inr ?res, [''idx'' \<mapsto> 0])"
    by (simp add: sample_get_run)
  have mem: "?c \<in> set (calls ?res)"
    by (simp add: json_reply_def Let_def)
  have failed: "(\<lambda>c. Inl (RequestException ''connection refused'')) ?c = Inl (RequestException ''connection refused'')"
    by simp
  have lib: "json_dumps cpython = json_plain"
    by (simp add: cpython_def)
  from C6_network_failure [OF run mem failed]
  have "calls ?res = [?c] \<and>
        responses ?res =
          [\<lparr>status = 502,
            sent_headers = [(''Content-Type'', ''application/json''), (''Content-Length'', ''66'')],
            body = json_plain [(''error'', ''Proxy request failed''),
                               (''message'', ''connection refused'')]\<rparr>] \<and>
        access_log ?res = [(502, 66)]"
    unfolding lib failure_body_length str_nat_66 by simp
  with run mem show ?thesis by blast
qed

lemma no_worker_body_length:
  "length (json_plain [(''error'', ''No worker endpoints available'')]) = 42"
  by code_simp

lemma str_nat_42: "str_nat 42 = ''42''"
  by code_simp

theorem C5_empty_pool_witness:
  "choose_endpoint [] ''random'' Map.empty 3 = (Inr None, Map.empty) \<and>
   choose_endpoint [] ''roundrobin'' Map.empty 3 = (Inr None, Map.empty) \<and>
   extract_target cpython
     \<lparr>command = ''GET'', path = ''/?url=https://example.com/x'',
      headers = [(''Host'', ''127.0.0.1:8080''), (''Accept'', ''*/*'')], rfile = []\<rparr> =
     Inr (Some ''https://example.com/x'') \<and>
   forward cpython (\<lambda>c. Inl (RequestException ''unreachable''))
     \<lparr>ctx_endpoints = [], ctx_policy = ''roundrobin'', ctx_timeout = 30\<rparr>
     \<lparr>command = ''GET'', path = ''/?url=https://example.com/x'',
      headers = [(''Host'', ''127.0.0.1:8080''), (''Accept'', ''*/*'')], rfile = []\<rparr>
     Map.empty 3 =
     (Inr \<lparr>responses =
             [\<lparr>status = 503,
               sent_headers = [(''Content-Type'', ''application/json''), (''Content-Length'', ''42'')],
               body = json_plain [(''error'', ''No worker endpoints available'')]\<rparr>],
           calls = [], dials = [], access_log = [(503, 42)]\<rparr>,
      Map.empty)"
proof -
  let ?req = "\<lparr>command = ''GET'', path = ''/?url=https://example.com/x'',
               headers = [(''Host'', ''127.0.0.1:8080''), (''Accept'', ''*/*'')], rfile = []\<rparr>"
  have t: "extract_target cpython ?req = Inr (Some ''https://example.com/x'')"
    by code_simp
  have lib: "json_dumps cpython = json_plain"
    by (simp add: cpython_def)
  show ?thesis
    using C5_empty_pool [where policy = "''random''" and state = Map.empty and r = 3 and
            ctx = "\<lparr>ctx_endpoints = [], ctx_policy = ''roundrobin'', ctx_timeout = 30\<rparr>" and
            L = cpython and req = ?req and t = "''https://example.com/x''" and
            request = "\<lambda>c. Inl (RequestException ''unreachable'')"]
          C5_empty_pool [where policy = "''roundrobin''" and state = Map.empty and r = 3 and
            ctx = "\<lparr>ctx_endpoints = [], ctx_policy = ''roundrobin'', ctx_timeout = 30\<rparr>" and
            L = cpython and req = ?req and t = "''https://example.com/x''" and
            request = "\<lambda>c. Inl (RequestException ''unreachable'')"]
    unfolding lib no_worker_body_length str_nat_42
    by (simp add: t)
qed

section \<open>Other query parameters\<close>

lemma extract_url_parameter:
  assumes "urlparse L (path req) = Inr parsed"
      and "parse_qs L (query parsed) ''url'' = Some (u # us)" and "u \<noteq> []"
  shows "extract_target L req =
           Inr (Some (if startswith (ppath parsed) ''/http://'' \<or>
                         startswith (ppath parsed) ''/https://''
                      then drop 1 (ppath parsed)
                      else if (scheme parsed = ''http'' \<or> scheme parsed = ''https'') \<and>
                              netloc parsed \<noteq> [] \<and> path req \<noteq> []
                      then path req else u))"
proof (cases "startswith (ppath parsed) ''/http://'' \<or> startswith (ppath parsed) ''/https://''")
  case True
  with extract_embedded [OF assms(1) True] show ?thesis by simp
next
  case False
  with assms show ?thesis
    by (auto simp add: extract_target_def Let_def falsy_def py_index_def)
qed

text \<open>
  C7 (amended). Take a forwarded request with the query string
  \<^verbatim>\<open>url=https://example.com/x&foo=1\<close>, whose parameter \<^verbatim>\<open>url\<close> the library parses as
  \<^verbatim>\<open>https://example.com/x\<close>. Its outbound URL is the URL of the selected endpoint,
  \<^verbatim>\<open>?url=\<close> and the quoted target, where the target is: the parsed path without its
  leading slash when that path begins with \<^verbatim>\<open>/http://\<close> or \<^verbatim>\<open>/https://\<close>; otherwise the
  whole request target, \<^verbatim>\<open>foo=1\<close> included, when it is an absolute http or https URL with
  a host; otherwise (origin form, as in \<^verbatim>\<open>GET /?url=https://example.com/x&foo=1\<close>) the
  parameter value \<^verbatim>\<open>https://example.com/x\<close> alone, without \<^verbatim>\<open>foo=1\<close>. When the call
  returns, the status sent to the client is the endpoint's status code.
\<close>

theorem C7_query_roundtrip:
  assumes "urlparse L (path req) = Inr parsed"
      and "query parsed = ''url=https://example.com/x&foo=1''"
      and "parse_qs L ''url=https://example.com/x&foo=1'' ''url'' = Some [''https://example.com/x'']"
      and "forward L request ctx req state r = (Inr res, state')"
      and "c \<in> set (calls res)"
  shows "(\<exists>w. choose_endpoint (ctx_endpoints ctx) (ctx_policy ctx) state r =
                (Inr (Some w), state') \<and>
              out_url c =
                w @ ''?url='' @
                quote L (if startswith (ppath parsed) ''/http://'' \<or>
                            startswith (ppath parsed) ''/https://''
                         then drop 1 (ppath parsed)
                         else if (scheme parsed = ''http'' \<or> scheme parsed = ''https'') \<and>
                                 netloc parsed \<noteq> [] \<and> path req \<noteq> []
                         then path req else ''https://example.com/x'')) \<and>
         (\<forall>resp. request c = Inr resp \<longrightarrow> map status (responses res) = [status_code resp])"
proof
  have q: "parse_qs L (query parsed) ''url'' = Some (''https://example.com/x'' # [])"
    using assms(2,3) by simp
  have ne: "''https://example.com/x'' \<noteq> []"
    by simp
  note target = extract_url_parameter [OF assms(1) q ne]
  from assms(4,5) obtain t w d where
    t: "extract_target L req = Inr (Some t)" and
    w: "choose_endpoint (ctx_endpoints ctx) (ctx_policy ctx) state r = (Inr (Some w), state')" and
    c: "c = \<lparr>out_method = command req, out_url = w @ ''?url='' @ quote L t,
              out_headers = copy_headers (headers req) [], out_data = d,
              out_timeout = ctx_timeout ctx\<rparr>"
    by (rule forward_call_inv)
  from t target have
    "t = (if startswith (ppath parsed) ''/http://'' \<or> startswith (ppath parsed) ''/https://''
          then drop 1 (ppath parsed)
          else if (scheme parsed = ''http'' \<or> scheme parsed = ''https'') \<and>
                  netloc parsed \<noteq> [] \<and> path req \<noteq> []
          then path req else ''https://example.com/x'')"
    by simp
  with c have "out_url c =
      w @ ''?url='' @
      quote L (if startswith (ppath parsed) ''/http://'' \<or> startswith (ppath parsed) ''/https://''
               then drop 1 (ppath parsed)
               else if (scheme parsed = ''http'' \<or> scheme parsed = ''https'') \<and>
                       netloc parsed \<noteq> [] \<and> path req \<noteq> []
               then path req else ''https://example.com/x'')"
    by simp
  with w show "\<exists>w. choose_endpoint (ctx_endpoints ctx) (ctx_policy ctx) state r =
                (Inr (Some w), state') \<and>
              out_url c =
                w @ ''?url='' @
                quote L (if startswith (ppath parsed) ''/http://'' \<or>
                            startswith (ppath parsed) ''/https://''
                         then drop 1 (ppath parsed)
                         else if (scheme parsed = ''http'' \<or> scheme parsed = ''https'') \<and>
                                 netloc parsed \<noteq> [] \<and> path req \<noteq> []
                         then path req else ''https://example.com/x'')"
    by (intro exI conjI)
next
  show "\<forall>resp. request c = Inr resp \<longrightarrow> map status (responses res) = [status_code resp]"
  proof (intro allI impI)
    fix resp
    assume "request c = Inr resp"
    with forward_calls [OF assms(4,5)] have "res = relay_response resp c"
      by simp
    then show "map status (responses res) = [status_code resp]"
      by (simp add: relay_response_def)
  qed
qed

lemma sample_parameter_value:
  "parse_qs cpython ''url=https://example.com/x&foo=1'' ''url'' = Some [''https://example.com/x'']"
  by code_simp

theorem C7_query_roundtrip_witness:
  "urlparse cpython ''/?url=https://example.com/x&foo=1'' =
     Inr \<lparr>scheme = [], netloc = [], ppath = ''/'', query = ''url=https://example.com/x&foo=1''\<rparr> \<and>
   urlparse cpython ''http://127.0.0.1:8080/?url=https://example.com/x&foo=1'' =
     Inr \<lparr>scheme = ''http'', netloc = ''127.0.0.1:8080'', ppath = ''/'',
          query = ''url=https://example.com/x&foo=1''\<rparr> \<and>
   parse_qs cpython ''url=https://example.com/x&foo=1'' ''url'' = Some [''https://example.com/x''] \<and>
   (\<exists>res c.
      forward cpython
        (\<lambda>c. Inr \<lparr>status_code = 404, resp_headers = [(''Content-Type'', ''text/plain'')],
                   content = ''no''\<rparr>)
        \<lparr>ctx_endpoints = [endpoint_of ''https://w1.example''], ctx_policy = ''roundrobin'',
         ctx_timeout = 30\<rparr>
        \<lparr>command = ''GET'', path = ''/?url=https://example.com/x&foo=1'',
         headers = [(''Accept'', ''*/*'')], rfile = []\<rparr>
        Map.empty 0 = (Inr res, [''idx'' \<mapsto> 0]) \<and>
      c \<in> set (calls res) \<and>
      out_url c = ''https://w1.example?url=https%3A%2F%2Fexample.com%2Fx'' \<and>
      map status (responses res) = [404]) \<and>
   (\<exists>res c.
      forward cpython
        (\<lambda>c. Inr \<lparr>status_code = 404, resp_headers = [(''Content-Type'', ''text/plain'')],
                   content = ''no''\<rparr>)
        \<lparr>ctx_endpoints = [endpoint_of ''https://w1.example''], ctx_policy = ''roundrobin'',
         ctx_timeout = 30\<rparr>
        \<lparr>command = ''GET'', path = ''http://127.0.0.1:8080/?url=https://example.com/x&foo=1'',
         headers = [(''Accept'', ''*/*'')], rfile = []\<rparr>
        Map.empty 0 = (Inr res, [''idx'' \<mapsto> 0]) \<and>
      c \<in> set (calls res) \<and>
      out_url c =
        ''https://w1.example?url=http%3A%2F%2F127.0.0.1%3A8080%2F%3Furl%3Dhttps%3A%2F%2Fexample.com%2Fx%26foo%3D1'' \<and>
      map status (responses res) = [404])"
proof -
  let ?ctx = "\<lparr>ctx_endpoints = [endpoint_of ''https://w1.example''], ctx_policy = ''roundrobin'',
               ctx_timeout = 30\<rparr>"
  let ?resp = "\<lparr>status_code = 404, resp_headers = [(''Content-Type'', ''text/plain'')],
                content = ''no''\<rparr>"
  let ?req1 = "\<lparr>command = ''GET'', path = ''/?url=https://example.com/x&foo=1'',
                headers = [(''Accept'', ''*/*'')], rfile = []\<rparr>"
  let ?req2 = "\<lparr>command = ''GET'',
                path = ''http://127.0.0.1:8080/?url=https://example.com/x&foo=1'',
                headers = [(''Accept'', ''*/*'')], rfile = []\<rparr>"
  let ?p1 = "\<lparr>scheme = [], netloc = [], ppath = ''/'',
              query = ''url=https://example.com/x&foo=1''\<rparr>"
  let ?p2 = "\<lparr>scheme = ''http'', netloc = ''127.0.0.1:8080'', ppath = ''/'',
              query = ''url=https://example.com/x&foo=1''\<rparr>"
  let ?u1 = "''https://w1.example?url=https%3A%2F%2Fexample.com%2Fx''"
  let ?u2 = "''https://w1.example?url=http%3A%2F%2F127.0.0.1%3A8080%2F%3Furl%3Dhttps%3A%2F%2Fexample.com%2Fx%26foo%3D1''"
  let ?c1 = "\<lparr>out_method = ''GET'', out_url = ?u1, out_headers = [(''Accept'', ''*/*'')],
              out_data = None, out_timeout = 30\<rparr>"
  let ?c2 = "\<lparr>out_method = ''GET'', out_url = ?u2, out_headers = [(''Accept'', ''*/*'')],
              out_data = None, out_timeout = 30\<rparr>"
  have p1: "urlparse cpython ''/?url=https://example.com/x&foo=1'' = Inr ?p1"
    by code_simp
  have p2: "urlparse cpython ''http://127.0.0.1:8080/?url=https://example.com/x&foo=1'' = Inr ?p2"
    by code_simp
  have p1': "urlparse cpython (path ?req1) = Inr ?p1" using p1 by simp
  have p2': "urlparse cpython (path ?req2) = Inr ?p2" using p2 by simp
  have q1: "query ?p1 = ''url=https://example.com/x&foo=1''" by simp
  have q2: "query ?p2 = ''url=https://example.com/x&foo=1''" by simp
  have t1: "extract_target cpython ?req1 = Inr (Some ''https://example.com/x'')"
    by code_simp
  have t2: "extract_target cpython ?req2 =
              Inr (Some ''http://127.0.0.1:8080/?url=https://example.com/x&foo=1'')"
    by code_simp
  have n1: "''https://example.com/x'' \<noteq> []"
    and n2: "''http://127.0.0.1:8080/?url=https://example.com/x&foo=1'' \<noteq> []"
    and nw: "''https://w1.example'' \<noteq> []"
    by simp_all
  have sel: "choose_endpoint (ctx_endpoints ?ctx) (ctx_policy ?ctx) Map.empty 0 =
               (Inr (Some ''https://w1.example''), [''idx'' \<mapsto> 0])"
    by (simp add: sample_roundrobin)
  have d1: "read_data cpython ?req1 = Inr None" and d2: "read_data cpython ?req2 = Inr None"
    by (simp_all add: read_data_get)
  have u1: "''https://w1.example'' @ ''?url='' @ quote cpython ''https://example.com/x'' = ?u1"
    by code_simp
  have u2: "''https://w1.example'' @ ''?url='' @
            quote cpython ''http://127.0.0.1:8080/?url=https://example.com/x&foo=1'' = ?u2"
    by code_simp
  have hs: "copy_headers [(''Accept'', ''*/*'')] [] = [(''Accept'', ''*/*'')]"
    by code_simp
  have run1: "forward cpython (\<lambda>c. Inr ?resp) ?ctx ?req1 Map.empty 0 =
                (Inr (relay_response ?resp ?c1), [''idx'' \<mapsto> 0])"
    using forward_issues [OF t1 n1 sel nw d1, of "\<lambda>c. Inr ?resp"]
    unfolding u1 request.select_convs proxy_context.select_convs hs by simp
  have run2: "forward cpython (\<lambda>c. Inr ?resp) ?ctx ?req2 Map.empty 0 =
                (Inr (relay_response ?resp ?c2), [''idx'' \<mapsto> 0])"
    using forward_issues [OF t2 n2 sel nw d2, of "\<lambda>c. Inr ?resp"]
    unfolding u2 request.select_convs proxy_context.select_convs hs by simp
  have m1: "?c1 \<in> set (calls (relay_response ?resp ?c1))"
    and m2: "?c2 \<in> set (calls (relay_response ?resp ?c2))"
    by (simp_all add: relay_response_def)
  have ok1: "(\<lambda>c. Inr ?resp) ?c1 = (Inr ?resp :: request_error + upstream_response)"
    and ok2: "(\<lambda>c. Inr ?resp) ?c2 = (Inr ?resp :: request_error + upstream_response)"
    by simp_all
  note T1 = C7_query_roundtrip [OF p1' q1 sample_parameter_value run1 m1]
  note T2 = C7_query_roundtrip [OF p2' q2 sample_parameter_value run2 m2]
  from T1 [THEN conjunct2, THEN spec, THEN mp, OF ok1]
  have s1: "map status (responses (relay_response ?resp ?c1)) = [404]"
    by simp
  from T2 [THEN conjunct2, THEN spec, THEN mp, OF ok2]
  have s2: "map status (responses (relay_response ?resp ?c2)) = [404]"
    by simp
  have o1: "out_url ?c1 = ?u1" and o2: "out_url ?c2 = ?u2"
    by simp_all
  have E1: "\<exists>res c. forward cpython (\<lambda>c. Inr ?resp) ?ctx ?req1 Map.empty 0 =
                       (Inr res, [''idx'' \<mapsto> 0]) \<and>
                     c \<in> set (calls res) \<and> out_url c = ?u1 \<and>
                     map status (responses res) = [404]"
    using run1 m1 o1 s1 by (intro exI conjI)
  have E2: "\<exists>res c. forward cpython (\<lambda>c. Inr ?resp) ?ctx ?req2 Map.empty 0 =
                       (Inr res, [''idx'' \<mapsto> 0]) \<and>
                     c \<in> set (calls res) \<and> out_url c = ?u2 \<and>
                     map status (responses res) = [404]"
    using run2 m2 o2 s2 by (intro exI conjI)
  show ?thesis
    using p1 p2 sample_parameter_value E1 E2 by (intro conjI)
qed

text \<open>
  C7 as stated has \<^verbatim>\<open>foo=1\<close> preserved in the outbound call as part of a larger target.
  On \<^verbatim>\<open>GET /?url=https://example.com/x&foo=1\<close> the target is not
  \<^verbatim>\<open>https://example.com/x&foo=1\<close>, and the outbound URL ends in the quoted
  \<^verbatim>\<open>https://example.com/x\<close>, not in \<^verbatim>\<open>https%3A%2F%2Fexample.com%2Fx%26foo%3D1\<close>.
\<close>

theorem C7_extra_parameter_counterexample:
  "extract_target cpython
     \<lparr>command = ''GET'', path = ''/?url=https://example.com/x&foo=1'',
      headers = [(''Accept'', ''*/*'')], rfile = []\<rparr> \<noteq>
     Inr (Some ''https://example.com/x&foo=1'') \<and>
   quote cpython ''https://example.com/x&foo=1'' = ''https%3A%2F%2Fexample.com%2Fx%26foo%3D1'' \<and>
   fst (forward cpython
          (\<lambda>c. Inr \<lparr>status_code = 200, resp_headers = [], content = ''ok''\<rparr>)
          \<lparr>ctx_endpoints = [endpoint_of ''https://w1.example''], ctx_policy = ''roundrobin'',
           ctx_timeout = 30\<rparr>
          \<lparr>command = ''GET'', path = ''/?url=https://example.com/x&foo=1'',
           headers = [(''Accept'', ''*/*'')], rfile = []\<rparr>
          Map.empty 0) =
     Inr \<lparr>responses =
            [\<lparr>status = 200, sent_headers = [(''Content-Length'', ''2'')], body = ''ok''\<rparr>],
          calls =
            [\<lparr>out_method = ''GET'',
              out_url = ''https://w1.example?url=https%3A%2F%2Fexample.com%2Fx'',
              out_headers = [(''Accept'', ''*/*'')], out_data = None, out_timeout = 30\<rparr>],
          dials = [], access_log = [(200, 2)]\<rparr>"
  by code_simp

section \<open>CONNECT failures and stopping the server\<close>

lemma split_colon_none: "CHR '':'' \<notin> set s \<Longrightarrow> split_colon s = None"
  by (simp add: split_colon_def)

lemma split_colon_some:
  assumes "CHR '':'' \<notin> set host"
  shows "split_colon (host @ CHR '':'' # port_str) = Some (host, port_str)"
proof -
  have all: "\<And>c. c \<in> set host \<Longrightarrow> c \<noteq> CHR '':''"
    using assms by auto
  have "takeWhile (\<lambda>c. c \<noteq> CHR '':'') (host @ CHR '':'' # port_str) = host"
    using all by (simp add: takeWhile_append2)
  moreover have "dropWhile (\<lambda>c. c \<noteq> CHR '':'') (host @ CHR '':'' # port_str) = CHR '':'' # port_str"
    using all by (simp add: dropWhile_append2)
  ultimately show ?thesis by (simp add: split_colon_def)
qed

text \<open>
  C8. A CONNECT target without a colon, or whose text after the first colon \<^verbatim>\<open>int\<close>
  rejects, is answered with 400: no socket is dialled and the access log records 400
  with 0 bytes. A target \<^verbatim>\<open>host:port\<close> whose dial fails is answered with 502, and the
  log records 502 with 0 bytes. In both cases no \<^verbatim>\<open>requests.request\<close> call is made and
  the selection state is left as it was: no endpoint of the pool is contacted.
\<close>

theorem C8_connect_failures:
  "(CHR '':'' \<notin> set (path req) \<or>
    (\<exists>h p. path req = h @ CHR '':'' # p \<and> CHR '':'' \<notin> set h \<and> py_int L p = None) \<longrightarrow>
      do_CONNECT L dial events ctx req state =
        (Inr \<lparr>responses = [\<lparr>status = 400, sent_headers = [], body = []\<rparr>],
              calls = [], dials = [], access_log = [(400, 0)]\<rparr>, state)) \<and>
   (path req = host @ CHR '':'' # port_str \<and> CHR '':'' \<notin> set host \<and>
    py_int L port_str = Some port \<and> \<not> dial host port \<longrightarrow>
      do_CONNECT L dial events ctx req state =
        (Inr \<lparr>responses = [\<lparr>status = 502, sent_headers = [], body = []\<rparr>],
              calls = [], dials = [(host, port)], access_log = [(502, 0)]\<rparr>, state))"
proof (intro conjI impI)
  assume "CHR '':'' \<notin> set (path req) \<or>
    (\<exists>h p. path req = h @ CHR '':'' # p \<and> CHR '':'' \<notin> set h \<and> py_int L p = None)"
  then show "do_CONNECT L dial events ctx req state =
        (Inr \<lparr>responses = [\<lparr>status = 400, sent_headers = [], body = []\<rparr>],
              calls = [], dials = [], access_log = [(400, 0)]\<rparr>, state)"
  proof
    assume "CHR '':'' \<notin> set (path req)"
    then show ?thesis by (simp add: do_CONNECT_def split_colon_none)
  next
    assume "\<exists>h p. path req = h @ CHR '':'' # p \<and> CHR '':'' \<notin> set h \<and> py_int L p = None"
    then obtain h p where hp: "path req = h @ CHR '':'' # p" "CHR '':'' \<notin> set h"
      "py_int L p = None"
      by blast
    from split_colon_some [OF hp(2), of p] hp(1,3) show ?thesis
      by (simp add: do_CONNECT_def)
  qed
next
  assume a: "path req = host @ CHR '':'' # port_str \<and> CHR '':'' \<notin> set host \<and>
    py_int L port_str = Some port \<and> \<not> dial host port"
  then have "split_colon (path req) = Some (host, port_str)"
    using split_colon_some [of host port_str] by simp
  with a show "do_CONNECT L dial events ctx req state =
        (Inr \<lparr>responses = [\<lparr>status = 502, sent_headers = [], body = []\<rparr>],
              calls = [], dials = [(host, port)], access_log = [(502, 0)]\<rparr>, state)"
    by (simp add: do_CONNECT_def)
qed

text \<open>
  C9. \<^verbatim>\<open>serve-stop\<close>: without a marker file it prints its not-running report (the line
  \<^verbatim>\<open>No PID file found\<close>) and calls \<^verbatim>\<open>os.kill\<close> not at all. With a marker file that
  records a process id, it sends SIGTERM to that id; when the signal is delivered the
  marker file is removed and \<^verbatim>\<open>Server stopped\<close> is printed; when \<^verbatim>\<open>os.kill\<close> raises, the
  failure is printed and the marker file stays as it was.
\<close>

theorem C9_serve_stop:
  "(marker w = None \<longrightarrow>
      serve_stop L kill w = w\<lparr>printed := printed w @ [No_PID_file_found]\<rparr>) \<and>
   (marker w = Some s \<and> py_int L (strip L s) = Some pid \<and> pid \<noteq> 0 \<and>
    kill pid SIGTERM = None \<longrightarrow>
      serve_stop L kill w =
        w\<lparr>marker := None, kills := kills w @ [(pid, SIGTERM)],
          printed := printed w @ [Server_stopped]\<rparr>) \<and>
   (marker w = Some s \<and> py_int L (strip L s) = Some pid \<and> pid \<noteq> 0 \<and>
    kill pid SIGTERM = Some e \<longrightarrow>
      serve_stop L kill w =
        w\<lparr>kills := kills w @ [(pid, SIGTERM)],
          printed := printed w @ [Failed_to_stop_server e]\<rparr>)"
  by (simp add: serve_stop_def read_pid_def remove_pid_def os_remove_def Let_def)

theorem C8_connect_failures_witness:
  "do_CONNECT cpython (\<lambda>h p. False) []
     \<lparr>ctx_endpoints = [endpoint_of ''https://w1.example''], ctx_policy = ''roundrobin'',
      ctx_timeout = 30\<rparr>
     \<lparr>command = ''CONNECT'', path = ''example.com'', headers = [], rfile = []\<rparr> Map.empty =
     (Inr \<lparr>responses = [\<lparr>status = 400, sent_headers = [], body = []\<rparr>],
           calls = [], dials = [], access_log = [(400, 0)]\<rparr>, Map.empty) \<and>
   py_int cpython ''https'' = None \<and>
   do_CONNECT cpython (\<lambda>h p. False) []
     \<lparr>ctx_endpoints = [endpoint_of ''https://w1.example''], ctx_policy = ''roundrobin'',
      ctx_timeout = 30\<rparr>
     \<lparr>command = ''CONNECT'', path = ''example.com:https'', headers = [], rfile = []\<rparr> Map.empty =
     (Inr \<lparr>responses = [\<lparr>status = 400, sent_headers = [], body = []\<rparr>],
           calls = [], dials = [], access_log = [(400, 0)]\<rparr>, Map.empty) \<and>
   py_int cpython ''443'' = Some 443 \<and>
   do_CONNECT cpython (\<lambda>h p. False) []
     \<lparr>ctx_endpoints = [endpoint_of ''https://w1.example''], ctx_policy = ''roundrobin'',
      ctx_timeout = 30\<rparr>
     \<lparr>command = ''CONNECT'', path = ''example.com:443'', headers = [], rfile = []\<rparr> Map.empty =
     (Inr \<lparr>responses = [\<lparr>status = 502, sent_headers = [], body = []\<rparr>],
           calls = [], dials = [(''example.com'', 443)], access_log = [(502, 0)]\<rparr>, Map.empty)"
proof -
  let ?ctx = "\<lparr>ctx_endpoints = [endpoint_of ''https://w1.example''], ctx_policy = ''roundrobin'',
               ctx_timeout = 30\<rparr>"
  let ?r1 = "\<lparr>command = ''CONNECT'', path = ''example.com'', headers = [], rfile = []\<rparr>"
  let ?r2 = "\<lparr>command = ''CONNECT'', path = ''example.com:https'', headers = [], rfile = []\<rparr>"
  let ?r3 = "\<lparr>command = ''CONNECT'', path = ''example.com:443'', headers = [], rfile = []\<rparr>"
  let ?bad = "\<lparr>responses = [\<lparr>status = 400, sent_headers = [], body = []\<rparr>],
               calls = [], dials = [], access_log = [(400, 0)]\<rparr>"
  have n: "py_int cpython ''https'' = None"
    by code_simp
  have m: "py_int cpython ''443'' = Some 443"
    by code_simp
  have a1: "CHR '':'' \<notin> set (path ?r1)"
    by simp
  have a2: "\<exists>h p. path ?r2 = h @ CHR '':'' # p \<and> CHR '':'' \<notin> set h \<and> py_int cpython p = None"
    by (rule exI [of _ "''example.com''"], rule exI [of _ "''https''"]) (simp add: n)
  have a3: "path ?r3 = ''example.com'' @ CHR '':'' # ''443'' \<and> CHR '':'' \<notin> set ''example.com'' \<and>
            py_int cpython ''443'' = Some 443 \<and> \<not> (\<lambda>h p. False) ''example.com'' 443"
    by (simp add: m)
  have R1: "do_CONNECT cpython (\<lambda>h p. False) [] ?ctx ?r1 Map.empty = (Inr ?bad, Map.empty)"
    using C8_connect_failures [where L = cpython and req = ?r1 and dial = "\<lambda>h p. False" and
            events = "[]" and ctx = ?ctx and state = Map.empty] a1
    by blast
  have R2: "do_CONNECT cpython (\<lambda>h p. False) [] ?ctx ?r2 Map.empty = (Inr ?bad, Map.empty)"
    using C8_connect_failures [where L = cpython and req = ?r2 and dial = "\<lambda>h p. False" and
            events = "[]" and ctx = ?ctx and state = Map.empty] a2
    by blast
  have R3: "do_CONNECT cpython (\<lambda>h p. False) [] ?ctx ?r3 Map.empty =
              (Inr \<lparr>responses = [\<lparr>status = 502, sent_headers = [], body = []\<rparr>],
                    calls = [], dials = [(''example.com'', 443)], access_log = [(502, 0)]\<rparr>,
               Map.empty)"
    using C8_connect_failures [where L = cpython and req = ?r3 and dial = "\<lambda>h p. False" and
            events = "[]" and ctx = ?ctx and state = Map.empty and host = "''example.com''" and
            port_str = "''443''" and port = 443, THEN conjunct2, THEN mp, OF a3] .
  show ?thesis
    using R1 n R2 m R3 by (intro conjI)
qed

theorem C9_serve_stop_witness:
  "serve_stop cpython (\<lambda>p s. None) \<lparr>marker = None, kills = [], printed = []\<rparr> =
     \<lparr>marker = None, kills = [], printed = [No_PID_file_found]\<rparr> \<and>
   py_int cpython (strip cpython ''4242'') = Some 4242 \<and>
   serve_stop cpython (\<lambda>p s. None) \<lparr>marker = Some ''4242'', kills = [], printed = []\<rparr> =
     \<lparr>marker = None, kills = [(4242, SIGTERM)], printed = [Server_stopped]\<rparr> \<and>
   serve_stop cpython (\<lambda>p s. Some ''No such process'')
     \<lparr>marker = Some ''4242'', kills = [], printed = []\<rparr> =
     \<lparr>marker = Some ''4242'', kills = [(4242, SIGTERM)],
      printed = [Failed_to_stop_server ''No such process'']\<rparr>"
proof -
  have pid: "py_int cpython (strip cpython ''4242'') = Some 4242"
    by code_simp
  show ?thesis
    using C9_serve_stop [where L = cpython and kill = "\<lambda>p s. None" and
            w = "\<lparr>marker = None, kills = [], printed = []\<rparr>"]
          C9_serve_stop [where L = cpython and kill = "\<lambda>p s. None" and s = "''4242''" and
            pid = 4242 and w = "\<lparr>marker = Some ''4242'', kills = [], printed = []\<rparr>"]
          C9_serve_stop [where L = cpython and kill = "\<lambda>p s. Some ''No such process''" and
            s = "''4242''" and pid = 4242 and e = "''No such process''" and
            w = "\<lparr>marker = Some ''4242'', kills = [], printed = []\<rparr>"]
          pid
    by simp
qed

end
